theory Spec2Isabelle
  imports Main "HOL-Library.Char_ord" "HOL-Library.List_Lexorder" "HOL-Library.AList"
    "HOL-Library.Sublist" "HOL-Library.Word"
begin

chapter \<open>The issuer operations of the edge service\<close>

text \<open>
  A shallow embedding of \<^verbatim>\<open>pkg/restapi/issuer/operation/operations.go\<close>. Every Go
  function that a verified property talks about is a HOL function of the same name. What the
  Go code receives from outside (the encrypted data vault, the cryptographic services, the
  profile store, the credential library, the JSON library, random bytes) is a parameter of
  the model.
\<close>

section \<open>Go values\<close>

text \<open>
  A byte slice and a Go string are both lists of 8-bit characters. A Go \<^verbatim>\<open>error\<close> is
  modelled by the text its \<^verbatim>\<open>Error()\<close> method returns: the code builds response
  bodies from that text and searches it with \<^verbatim>\<open>strings.Contains\<close>. A function that
  returns \<^verbatim>\<open>(T, error)\<close> returns \<open>error + T\<close>; one that returns only
  \<^verbatim>\<open>error\<close> returns \<open>error option\<close>. Timestamps (\<^verbatim>\<open>*time.Time\<close>) are
  carried as their text and are never inspected by the modelled code.
\<close>

type_synonym bytes = string
type_synonym error = string
type_synonym Time = string

text \<open>A run-time panic ends the handler: it is an outcome of its own, not an error value.\<close>

datatype 'a outcome = Panic string | Done 'a

definition StatusOK :: nat where "StatusOK = 200"
definition StatusCreated :: nat where "StatusCreated = 201"
definition StatusBadRequest :: nat where "StatusBadRequest = 400"
definition StatusConflict :: nat where "StatusConflict = 409"
definition StatusInternalServerError :: nat where "StatusInternalServerError = 500"

definition cslSize :: nat where "cslSize = 50"

definition invalidRequestErrMsg :: string where "invalidRequestErrMsg = ''Invalid request''"

definition assertionMethod :: string where "assertionMethod = ''assertionMethod''"
definition authentication :: string where "authentication = ''authentication''"
definition capabilityDelegation :: string where "capabilityDelegation = ''capabilityDelegation''"
definition capabilityInvocation :: string where "capabilityInvocation = ''capabilityInvocation''"

definition jsonWebSignature2020Context :: string where
  "jsonWebSignature2020Context = ''https://trustbloc.github.io/context/vc/credentials-v1.jsonld''"

definition errMultipleInconsistentVCsFoundForOneID :: error where
  "errMultipleInconsistentVCsFoundForOneID =
     ''multiple VCs with '' @
     ''differing contents were found matching the given ID. This indicates inconsistency in '' @
     ''the VC database. To solve this, delete the extra VCs and leave only one''"

subsection \<open>The strings package\<close>

text \<open>\<^verbatim>\<open>strings.Split(s, sep)\<close> for a separator of one byte: never an empty result.\<close>

fun Split :: "string \<Rightarrow> char \<Rightarrow> string list" where
  "Split [] sep = [[]]"
| "Split (c # cs) sep =
     (if c = sep then [] # Split cs sep
      else (case Split cs sep of [] \<Rightarrow> [[c]] | p # ps \<Rightarrow> (c # p) # ps))"

text \<open>\<^verbatim>\<open>strings.Contains(s, substr)\<close>.\<close>

fun Contains :: "string \<Rightarrow> string \<Rightarrow> bool" where
  "Contains [] substr = (substr = [])"
| "Contains (c # cs) substr = (prefix substr (c # cs) \<or> Contains cs substr)"

subsection \<open>Decoded JSON\<close>

text \<open>
  What \<^verbatim>\<open>json.Unmarshal\<close> stores in an \<^verbatim>\<open>interface{}\<close>: \<^verbatim>\<open>nil\<close>, a
  \<^verbatim>\<open>bool\<close>, a \<^verbatim>\<open>float64\<close>, a \<^verbatim>\<open>string\<close>, a \<^verbatim>\<open>[]interface{}\<close> or a
  \<^verbatim>\<open>map[string]interface{}\<close>. A \<^verbatim>\<open>float64\<close> is its 64 bits; the code does no
  arithmetic on one. A Go map is an association list in which a key is looked up at its
  first entry (\<open>map_of\<close>); the maps that the model builds have one entry for a key.
\<close>

datatype jvalue =
    JNull
  | JBool bool
  | JNumber "64 word"
  | JString string
  | JArray "jvalue list"
  | JObject "(string \<times> jvalue) list"

text \<open>
  The values this code puts into a \<^verbatim>\<open>map[string]interface{}\<close> of a document: a
  \<^verbatim>\<open>json.RawMessage\<close>, or what the decoder produced.
\<close>

datatype goValue = RawMessage bytes | Generic jvalue

section \<open>Data\<close>

subsection \<open>Credentials and profiles\<close>

text \<open>
  The fields of \<^verbatim>\<open>verifiable.Credential\<close>, \<^verbatim>\<open>verifiable.Issuer\<close>,
  \<^verbatim>\<open>verifiable.TypedID\<close> and \<^verbatim>\<open>vcprofile.DataProfile\<close> that the operations read
  or write. A \<^verbatim>\<open>CustomFields\<close> map holds decoded JSON values; looking a key up in
  the nil map finds nothing, as in the empty map.
\<close>

record Issuer =
  ID :: string
  CustomFields :: "(string \<times> jvalue) list"

record TypedID =
  TypedID_ID :: string
  TypedID_Type :: string
  TypedID_CustomFields :: "(string \<times> jvalue) list"

record Credential =
  Context :: "string list"
  Credential_ID :: string
  Types :: "string list"
  Subject :: jvalue
  Issuer :: Issuer
  Issued :: "Time option"
  Expired :: "Time option"
  Status :: "TypedID option"
  TermsOfUse :: "TypedID list"
  Evidence :: jvalue

record DataProfile =
  Name :: string
  URI :: string
  DID :: string
  SignatureType :: string
  SignatureRepresentation :: nat
  Creator :: string
  Created :: "Time option"
  DisableVCStatus :: bool
  OverwriteIssuer :: bool

subsection \<open>Requests\<close>

text \<open>
  The request structs, as the handlers use them. A \<^verbatim>\<open>json.RawMessage\<close> field and a
  pointer field are \<open>None\<close> when nil.
\<close>

record StoreVCRequest =
  StoreVCRequest_Profile :: string
  StoreVCRequest_Credential :: string

record UpdateCredentialStatusRequest =
  UpdateCredentialStatusRequest_Credential :: string
  UpdateCredentialStatusRequest_Status :: string
  UpdateCredentialStatusRequest_StatusReason :: string

record IssueCredentialOptions =
  AssertionMethod :: string
  VerificationMethod :: string
  ProofPurpose :: string
  IssueCredentialOptions_Created :: "Time option"
  Challenge :: string
  Domain :: string

record IssueCredentialRequest =
  IssueCredentialRequest_Credential :: bytes
  Opts :: "IssueCredentialOptions option"

record ComposeCredentialRequest =
  ComposeCredentialRequest_Issuer :: string
  ComposeCredentialRequest_Subject :: string
  ComposeCredentialRequest_Types :: "string list"
  IssuanceDate :: "Time option"
  ExpirationDate :: "Time option"
  Claims :: "bytes option"
  ComposeCredentialRequest_Evidence :: "bytes option"
  ComposeCredentialRequest_TermsOfUse :: "bytes option"
  ProofFormat :: string
  ProofFormatOptions :: "bytes option"

datatype SigningOpts =
    WithPurpose string
  | WithVerificationMethod string
  | WithSigningRepresentation string
  | WithCreated "Time option"
  | WithChallenge string
  | WithDomain string

subsection \<open>Documents of the encrypted data vault\<close>

text \<open>The structs of the vault's \<^verbatim>\<open>models\<close> package. A map field is \<open>None\<close> when nil.\<close>

record StructuredDocument =
  StructuredDocument_ID :: string
  Meta :: "(string \<times> goValue) list option"
  Content :: "(string \<times> goValue) list option"

record IDTypePair =
  IDTypePair_ID :: string
  IDTypePair_Type :: string

record IndexedAttribute =
  IndexedAttribute_Name :: string
  IndexedAttribute_Value :: string
  Unique :: bool

record IndexedAttributeCollection =
  IndexedAttributeCollection_Sequence :: int
  HMAC :: IDTypePair
  IndexedAttributes :: "IndexedAttribute list"

record EncryptedDocument =
  EncryptedDocument_ID :: string
  EncryptedDocument_Sequence :: int
  JWE :: bytes
  IndexedAttributeCollections :: "IndexedAttributeCollection list"

record Query =
  Query_Name :: string
  Query_Value :: string

record DataVaultConfiguration =
  ReferenceID :: string

subsection \<open>The response writer\<close>

text \<open>
  What a handler does to its \<^verbatim>\<open>http.ResponseWriter\<close> is the list of the calls it makes
  on it, in order: \<^verbatim>\<open>commhttp.WriteErrorResponse(rw, status, msg)\<close>,
  \<^verbatim>\<open>rw.WriteHeader(status)\<close>, \<^verbatim>\<open>commhttp.WriteResponse(rw, v)\<close> and
  \<^verbatim>\<open>rw.Write(b)\<close>.
\<close>

datatype rwEvent =
    WriteErrorResponse nat string
  | WriteHeader nat
  | WriteResponse Credential
  | Write bytes

section \<open>Collaborators\<close>

subsection \<open>The vault client\<close>

text \<open>
  The vault is a remote service: what it answers may depend on everything it has been sent.
  The \<^verbatim>\<open>EDVClient\<close> interface is therefore modelled by four answer functions that
  take the history of the calls made so far, and the state the operations thread is that
  history. Every deterministic client is of this form, and the history records the calls
  an operation makes.
\<close>

datatype edvCall =
    CreateDataVaultCall DataVaultConfiguration
  | CreateDocumentCall string EncryptedDocument
  | ReadDocumentCall string string
  | QueryVaultCall string Query

record EDVClient =
  CreateDataVault :: "edvCall list \<Rightarrow> DataVaultConfiguration \<Rightarrow> error + string"
  CreateDocument :: "edvCall list \<Rightarrow> string \<Rightarrow> EncryptedDocument \<Rightarrow> error + string"
  ReadDocument :: "edvCall list \<Rightarrow> string \<Rightarrow> string \<Rightarrow> error + EncryptedDocument"
  QueryVault :: "edvCall list \<Rightarrow> string \<Rightarrow> Query \<Rightarrow> error + string list"

definition callCreateDataVault ::
  "EDVClient \<Rightarrow> DataVaultConfiguration \<Rightarrow> edvCall list \<Rightarrow> (error + string) \<times> edvCall list" where
  "callCreateDataVault c config h = (CreateDataVault c h config, h @ [CreateDataVaultCall config])"

definition callCreateDocument ::
  "EDVClient \<Rightarrow> string \<Rightarrow> EncryptedDocument \<Rightarrow> edvCall list
     \<Rightarrow> (error + string) \<times> edvCall list" where
  "callCreateDocument c vaultID document h =
     (CreateDocument c h vaultID document, h @ [CreateDocumentCall vaultID document])"

definition callReadDocument ::
  "EDVClient \<Rightarrow> string \<Rightarrow> string \<Rightarrow> edvCall list
     \<Rightarrow> (error + EncryptedDocument) \<times> edvCall list" where
  "callReadDocument c vaultID docID h =
     (ReadDocument c h vaultID docID, h @ [ReadDocumentCall vaultID docID])"

definition callQueryVault ::
  "EDVClient \<Rightarrow> string \<Rightarrow> Query \<Rightarrow> edvCall list \<Rightarrow> (error + string list) \<times> edvCall list" where
  "callQueryVault c vaultID query h =
     (QueryVault c h vaultID query, h @ [QueryVaultCall vaultID query])"

subsection \<open>The status manager\<close>

text \<open>
  The \<^verbatim>\<open>vcStatusManager\<close> interface: its methods change the state \<open>'csl\<close> of the
  status lists.
\<close>

record 'csl vcStatusManager =
  CreateStatusID :: "'csl \<Rightarrow> (error + TypedID) \<times> 'csl"
  UpdateVCStatus ::
    "Credential \<Rightarrow> DataProfile \<Rightarrow> string \<Rightarrow> string \<Rightarrow> 'csl \<Rightarrow> error option \<times> 'csl"

subsection \<open>Imported packages\<close>

text \<open>
  Constants and functions of packages that the file imports and whose code is elsewhere:
  \<^verbatim>\<open>edverrors.ErrVaultNotFound.Error()\<close>, \<^verbatim>\<open>crypto.JSONWebSignature2020\<close>,
  \<^verbatim>\<open>cslstatus.Context\<close>, \<^verbatim>\<open>verifiable.NewCredential\<close> with the option it is called
  with, \<^verbatim>\<open>base58.Encode\<close>, \<^verbatim>\<open>base64.URLEncoding.EncodeToString\<close>,
  \<^verbatim>\<open>jose.Deserialize\<close>, the \<^verbatim>\<open>Serialize\<close> method of an encrypted message \<open>'jwe\<close>,
  the decoders of \<^verbatim>\<open>verifiable.TypedID\<close> (one value, and a list of them) and of
  \<^verbatim>\<open>time.Time\<close>. Each is a deterministic function of its arguments. So are the calls
  of \<^verbatim>\<open>encoding/json\<close> on the way of a credential into the vault, out of it, and into
  a composed credential: \<^verbatim>\<open>json.Marshal(structuredDoc)\<close>,
  \<^verbatim>\<open>json.Unmarshal(decryptedDocBytes, &decryptedDoc)\<close> into the zero document,
  \<^verbatim>\<open>json.Marshal(decryptedDoc.Content["message"])\<close> of an \<^verbatim>\<open>interface{}\<close>
  (\<open>None\<close> is the nil interface), and \<^verbatim>\<open>json.Unmarshal\<close> of a fragment into a
  \<^verbatim>\<open>map[string]interface{}\<close> with the value the map has before the call.
\<close>

datatype NewCredentialOpt = WithDisabledProofCheck | WithPublicKeyFetcher

record 'jwe Imported =
  ErrVaultNotFound :: error
  JSONWebSignature2020 :: string
  cslstatus_Context :: string
  NewCredential :: "bytes \<Rightarrow> NewCredentialOpt \<Rightarrow> error + Credential"
  base58_Encode :: "bytes \<Rightarrow> string"
  base64_URLEncoding_EncodeToString :: "bytes \<Rightarrow> string"
  jose_Deserialize :: "string \<Rightarrow> error + 'jwe"
  Serialize :: "'jwe \<Rightarrow> error + string"
  unmarshalTypedID :: "bytes \<Rightarrow> error + TypedID"
  unmarshalTypedIDs :: "bytes \<Rightarrow> error + TypedID list"
  unmarshalTime :: "string \<Rightarrow> error + Time"
  json_Marshal_StructuredDocument :: "StructuredDocument \<Rightarrow> error + bytes"
  json_Unmarshal_StructuredDocument :: "bytes \<Rightarrow> error + StructuredDocument"
  json_Marshal_interface :: "goValue option \<Rightarrow> error + bytes"
  json_Unmarshal_map ::
    "bytes \<Rightarrow> (string \<times> jvalue) list option \<Rightarrow> error + (string \<times> jvalue) list option"

subsection \<open>The operation\<close>

text \<open>
  The fields of the \<^verbatim>\<open>Operation\<close> struct that the modelled functions use. Of the
  profile store only \<^verbatim>\<open>GetProfile\<close> is called, of the \<^verbatim>\<open>crypto\<close> field only
  \<^verbatim>\<open>SignCredential\<close>, of the encrypter \<^verbatim>\<open>Encrypt\<close>, of the decrypter
  \<^verbatim>\<open>Decrypt\<close>, of \<^verbatim>\<open>macCrypto\<close> \<^verbatim>\<open>ComputeMAC\<close>: each field is that
  method.
\<close>

record ('jwe, 'kh, 'csl) Operation =
  profileStore :: "string \<Rightarrow> error + DataProfile"
  edvClient :: EDVClient
  crypto :: "DataProfile \<Rightarrow> Credential \<Rightarrow> SigningOpts list \<Rightarrow> error + Credential"
  jweEncrypter :: "bytes \<Rightarrow> error + 'jwe"
  jweDecrypter :: "'jwe \<Rightarrow> error + bytes"
  vcStatusManager :: "'csl vcStatusManager"
  macKeyHandle :: 'kh
  macCrypto :: "bytes \<Rightarrow> 'kh \<Rightarrow> error + bytes"
  vcIDIndexNameEncoded :: string

section \<open>The encoding/json package on a fragment\<close>

text \<open>
  What comes back from the vault depends on what \<^verbatim>\<open>json.Marshal\<close> and
  \<^verbatim>\<open>json.Unmarshal\<close> do with the bytes. This section describes the library (of
  Go 1.13, which the module names) on a fragment of JSON: the literals \<^verbatim>\<open>null\<close>,
  \<^verbatim>\<open>true\<close>, \<^verbatim>\<open>false\<close>; strings of printable ASCII characters other than the
  double quote, the backslash and the three characters \<^verbatim>\<open><\<close>, \<^verbatim>\<open>>\<close>,
  \<^verbatim>\<open>&\<close> that \<^verbatim>\<open>json.Marshal\<close> escapes; arrays; objects; and insignificant
  white space. Where a function of this section returns a
  result (\<open>Inr\<close>), the library returns that result. Numbers, escape sequences and bytes
  beyond ASCII are outside the fragment: there the functions answer \<open>errUnmodelled\<close>, which
  says nothing about the library. The message texts of the library's syntax and type errors
  are abbreviated.

  The operations on the vault do not call these functions: they call the library through
  \<open>Imported\<close>. The description is the assumption \<open>libraryOnFragment\<close> of the
  statement about the re-encoding of a retrieved credential, which is stated for payloads of
  the fragment, and it is the library of the concrete runs. The proof-format options of a
  compose request, a small object of identifiers and a time, are decoded by
  \<open>unmarshalProofFormatOptions\<close> below.
\<close>

definition errUnmodelled :: error where
  "errUnmodelled = ''json: input outside the modelled fragment''"

definition errUnexpectedEnd :: error where
  "errUnexpectedEnd = ''unexpected end of JSON input''"

definition errSyntax :: error where
  "errSyntax = ''invalid character''"

definition errType :: error where
  "errType = ''json: cannot unmarshal''"

definition isSpace :: "char \<Rightarrow> bool" where
  "isSpace c = (c = CHR 0x20 \<or> c = CHR 0x09 \<or> c = CHR 0x0A \<or> c = CHR 0x0D)"

definition plainChar :: "char \<Rightarrow> bool" where
  "plainChar c = (32 \<le> (of_char c :: nat) \<and> (of_char c :: nat) \<le> 126
     \<and> c \<noteq> CHR 0x22 \<and> c \<noteq> CHR 0x5C \<and> c \<noteq> CHR 0x3C \<and> c \<noteq> CHR 0x3E \<and> c \<noteq> CHR 0x26)"

definition plain :: "string \<Rightarrow> bool" where
  "plain s = list_all plainChar s"

subsection \<open>The scanner\<close>

text \<open>
  As the library's scanner does, the model reads one byte at a time, with a stack of the
  arrays and objects that are open. A frame holds what has been read of its array or object;
  the mode says what the next byte may be. Members of an object are kept in the order of the
  text, duplicates included.
\<close>

datatype frame =
    InArray "jvalue list"
  | InObject "(string \<times> jvalue) list" string

datatype mode =
    ExpectValue
  | ArrayStart
  | ObjectStart
  | ExpectKey "(string \<times> jvalue) list"
  | InKey "(string \<times> jvalue) list" string
  | ExpectColon "(string \<times> jvalue) list" string
  | InString string
  | InLiteral string jvalue
  | AfterValue jvalue

definition stringByte :: "char \<Rightarrow> error" where
  "stringByte c = (if (of_char c :: nat) < 32 then errSyntax else errUnmodelled)"

definition beginValue :: "char \<Rightarrow> frame list \<Rightarrow> error + mode \<times> frame list" where
  "beginValue c stk =
     (if c = CHR 0x22 then Inr (InString [], stk)
      else if c = CHR ''['' then Inr (ArrayStart, stk)
      else if c = CHR ''{'' then Inr (ObjectStart, stk)
      else if c = CHR ''t'' then Inr (InLiteral ''rue'' (JBool True), stk)
      else if c = CHR ''f'' then Inr (InLiteral ''alse'' (JBool False), stk)
      else if c = CHR ''n'' then Inr (InLiteral ''ull'' JNull, stk)
      else if c = CHR ''-'' \<or> (48 \<le> (of_char c :: nat) \<and> (of_char c :: nat) \<le> 57)
        then Inl errUnmodelled
      else Inl errSyntax)"

fun step :: "mode \<times> frame list \<Rightarrow> char \<Rightarrow> error + mode \<times> frame list" where
  "step (ExpectValue, stk) c =
     (if isSpace c then Inr (ExpectValue, stk) else beginValue c stk)"
| "step (ArrayStart, stk) c =
     (if isSpace c then Inr (ArrayStart, stk)
      else if c = CHR '']'' then Inr (AfterValue (JArray []), stk)
      else beginValue c (InArray [] # stk))"
| "step (ObjectStart, stk) c =
     (if isSpace c then Inr (ObjectStart, stk)
      else if c = CHR ''}'' then Inr (AfterValue (JObject []), stk)
      else if c = CHR 0x22 then Inr (InKey [] [], stk)
      else Inl errSyntax)"
| "step (ExpectKey kvs, stk) c =
     (if isSpace c then Inr (ExpectKey kvs, stk)
      else if c = CHR 0x22 then Inr (InKey kvs [], stk)
      else Inl errSyntax)"
| "step (InKey kvs k, stk) c =
     (if c = CHR 0x22 then Inr (ExpectColon kvs k, stk)
      else if plainChar c then Inr (InKey kvs (k @ [c]), stk)
      else Inl (stringByte c))"
| "step (ExpectColon kvs k, stk) c =
     (if isSpace c then Inr (ExpectColon kvs k, stk)
      else if c = CHR '':'' then Inr (ExpectValue, InObject kvs k # stk)
      else Inl errSyntax)"
| "step (InString s, stk) c =
     (if c = CHR 0x22 then Inr (AfterValue (JString s), stk)
      else if plainChar c then Inr (InString (s @ [c]), stk)
      else Inl (stringByte c))"
| "step (InLiteral [] v, stk) c = Inl errSyntax"
| "step (InLiteral (l # ls) v, stk) c =
     (if c \<noteq> l then Inl errSyntax
      else if ls = [] then Inr (AfterValue v, stk)
      else Inr (InLiteral ls v, stk))"
| "step (AfterValue v, []) c =
     (if isSpace c then Inr (AfterValue v, []) else Inl errSyntax)"
| "step (AfterValue v, InArray vs # stk) c =
     (if isSpace c then Inr (AfterValue v, InArray vs # stk)
      else if c = CHR '','' then Inr (ExpectValue, InArray (vs @ [v]) # stk)
      else if c = CHR '']'' then Inr (AfterValue (JArray (vs @ [v])), stk)
      else Inl errSyntax)"
| "step (AfterValue v, InObject kvs k # stk) c =
     (if isSpace c then Inr (AfterValue v, InObject kvs k # stk)
      else if c = CHR '','' then Inr (ExpectKey (kvs @ [(k, v)]), stk)
      else if c = CHR ''}'' then Inr (AfterValue (JObject (kvs @ [(k, v)])), stk)
      else Inl errSyntax)"

fun finish :: "mode \<times> frame list \<Rightarrow> error + jvalue" where
  "finish (AfterValue v, []) = Inr v"
| "finish cfg = Inl errUnexpectedEnd"

fun run :: "mode \<times> frame list \<Rightarrow> string \<Rightarrow> error + jvalue" where
  "run cfg [] = finish cfg"
| "run cfg (c # cs) = (case step cfg c of Inl e \<Rightarrow> Inl e | Inr cfg' \<Rightarrow> run cfg' cs)"

definition parseJSON :: "bytes \<Rightarrow> error + jvalue" where
  "parseJSON b = run (ExpectValue, []) b"

subsection \<open>Writing values\<close>

fun join :: "string \<Rightarrow> string list \<Rightarrow> string" where
  "join sep [] = []"
| "join sep [x] = x"
| "join sep (x # y # ys) = x @ sep @ join sep (y # ys)"

definition quote :: "string \<Rightarrow> string" where
  "quote s = CHR 0x22 # s @ [CHR 0x22]"

text \<open>
  The text of a value with no white space, members in the order of the list. A number is
  outside the fragment and has no text here.
\<close>

fun render :: "jvalue \<Rightarrow> string" where
  "render JNull = ''null''"
| "render (JBool b) = (if b then ''true'' else ''false'')"
| "render (JNumber n) = []"
| "render (JString s) = quote s"
| "render (JArray vs) = ''['' @ join '','' (map render vs) @ '']''"
| "render (JObject kvs) =
     ''{'' @ join '','' (map (\<lambda>kv. quote (fst kv) @ '':'' @ render (snd kv)) kvs) @ ''}''"

text \<open>The values of the fragment.\<close>

fun plainValue :: "jvalue \<Rightarrow> bool" where
  "plainValue (JString s) = plain s"
| "plainValue (JNumber n) = False"
| "plainValue (JArray vs) = list_all plainValue vs"
| "plainValue (JObject kvs) = list_all (\<lambda>kv. plain (fst kv) \<and> plainValue (snd kv)) kvs"
| "plainValue v = True"

text \<open>
  Decoding into \<^verbatim>\<open>interface{}\<close>: an object becomes a \<^verbatim>\<open>map[string]interface{}\<close>,
  so of two members with one key the later value stays; \<open>AList.update\<close> is the
  assignment \<^verbatim>\<open>m[k] = v\<close>.
\<close>

fun toGo :: "jvalue \<Rightarrow> jvalue" where
  "toGo (JObject kvs) =
     JObject (fold (\<lambda>kv m. AList.update (fst kv) (toGo (snd kv)) m) kvs [])"
| "toGo (JArray vs) = JArray (map toGo vs)"
| "toGo v = v"

text \<open>
  \<^verbatim>\<open>json.Marshal\<close> writes the entries of a map in the sorted order of their keys
  (\<open>AList.clearjunk\<close> keeps the first entry for each key: the entries of the map).
\<close>

fun sortKeys :: "jvalue \<Rightarrow> jvalue" where
  "sortKeys (JObject kvs) =
     JObject (sort_key fst (AList.clearjunk (map (\<lambda>kv. (fst kv, sortKeys (snd kv))) kvs)))"
| "sortKeys (JArray vs) = JArray (map sortKeys vs)"
| "sortKeys v = v"

text \<open>\<^verbatim>\<open>json.Marshal(v)\<close> for a value decoded into \<^verbatim>\<open>interface{}\<close>.\<close>

definition marshalValue :: "jvalue \<Rightarrow> error + bytes" where
  "marshalValue v = (if plainValue v then Inr (render (sortKeys v)) else Inl errUnmodelled)"

text \<open>
  A \<^verbatim>\<open>json.RawMessage\<close> is marshalled by checking it and dropping its insignificant
  white space (the library's \<^verbatim>\<open>compact\<close>); the order of members stays.
\<close>

definition compact :: "bytes \<Rightarrow> error + bytes" where
  "compact b = (case parseJSON b of Inl e \<Rightarrow> Inl e | Inr t \<Rightarrow> Inr (render t))"

definition marshalGoValue :: "goValue \<Rightarrow> error + bytes" where
  "marshalGoValue v = (case v of RawMessage b \<Rightarrow> compact b | Generic j \<Rightarrow> marshalValue j)"

fun marshalMembers :: "(string \<times> goValue) list \<Rightarrow> error + string list" where
  "marshalMembers [] = Inr []"
| "marshalMembers (kv # kvs) =
     (if \<not> plain (fst kv) then Inl errUnmodelled
      else case marshalGoValue (snd kv) of
        Inl e \<Rightarrow> Inl e
      | Inr b \<Rightarrow> (case marshalMembers kvs of
          Inl e \<Rightarrow> Inl e
        | Inr bs \<Rightarrow> Inr ((quote (fst kv) @ '':'' @ b) # bs)))"

text \<open>A map field of a struct: \<^verbatim>\<open>null\<close> for the nil map, else its entries by sorted key.\<close>

definition marshalMap :: "(string \<times> goValue) list option \<Rightarrow> error + bytes" where
  "marshalMap m =
     (case m of
        None \<Rightarrow> Inr ''null''
      | Some kvs \<Rightarrow> (case marshalMembers (sort_key fst (AList.clearjunk kvs)) of
          Inl e \<Rightarrow> Inl e
        | Inr bs \<Rightarrow> Inr (''{'' @ join '','' bs @ ''}'')))"

text \<open>
  The decoder matches a key of the text with a field of a struct without regard to case.
  On the fragment a key is ASCII, and folding it is folding its letters.
\<close>

definition lower :: "char \<Rightarrow> char" where
  "lower c = (if 65 \<le> (of_char c :: nat) \<and> (of_char c :: nat) \<le> 90
              then char_of ((of_char c :: nat) + 32) else c)"

definition equalFold :: "string \<Rightarrow> string \<Rightarrow> bool" where
  "equalFold a b = (map lower a = map lower b)"

text \<open>\<^verbatim>\<open>json.Unmarshal(b, &m)\<close> for a \<^verbatim>\<open>map[string]interface{}\<close> \<open>m\<close>.\<close>

definition unmarshalMap ::
  "bytes \<Rightarrow> (string \<times> jvalue) list option \<Rightarrow> error + (string \<times> jvalue) list option" where
  "unmarshalMap b m =
     (case parseJSON b of
        Inl e \<Rightarrow> Inl e
      | Inr JNull \<Rightarrow> Inr None
      | Inr (JObject kvs) \<Rightarrow>
          Inr (Some (fold (\<lambda>kv m. AList.update (fst kv) (toGo (snd kv)) m) kvs
                       (case m of None \<Rightarrow> [] | Some kvs' \<Rightarrow> kvs')))
      | Inr _ \<Rightarrow> Inl errType)"

text \<open>\<^verbatim>\<open>json.Marshal(structuredDoc)\<close>: the fields in the order of the struct.\<close>

definition marshalStructuredDocument :: "StructuredDocument \<Rightarrow> error + bytes" where
  "marshalStructuredDocument doc =
     (if \<not> plain (StructuredDocument_ID doc) then Inl errUnmodelled
      else case marshalMap (Meta doc) of
        Inl e \<Rightarrow> Inl e
      | Inr m \<Rightarrow> (case marshalMap (Content doc) of
          Inl e \<Rightarrow> Inl e
        | Inr c \<Rightarrow>
            Inr (''{'' @ quote ''id'' @ '':'' @ quote (StructuredDocument_ID doc) @ '','' @
                 quote ''meta'' @ '':'' @ m @ '','' @
                 quote ''content'' @ '':'' @ c @ ''}'')))"

text \<open>
  \<^verbatim>\<open>json.Unmarshal(b, &doc)\<close> for a zero \<^verbatim>\<open>StructuredDocument\<close>: the members of the
  object are decoded in the order of the text, each into the field its key names; a member
  whose value does not fit the field is a type error; other members are skipped. Decoding an
  object into a map field adds its members to the map.
\<close>

definition decodeMapField ::
  "jvalue \<Rightarrow> (string \<times> goValue) list option \<Rightarrow> error + (string \<times> goValue) list option" where
  "decodeMapField v m =
     (case v of
        JNull \<Rightarrow> Inr None
      | JObject kvs \<Rightarrow>
          Inr (Some (fold (\<lambda>kv m. AList.update (fst kv) (Generic (toGo (snd kv))) m) kvs
                       (case m of None \<Rightarrow> [] | Some kvs' \<Rightarrow> kvs')))
      | _ \<Rightarrow> Inl errType)"

fun decodeStructuredDocument ::
  "(string \<times> jvalue) list \<Rightarrow> StructuredDocument \<Rightarrow> error + StructuredDocument" where
  "decodeStructuredDocument [] doc = Inr doc"
| "decodeStructuredDocument (kv # kvs) doc =
     (if equalFold (fst kv) ''id'' then
        (case snd kv of
           JString s \<Rightarrow> decodeStructuredDocument kvs (doc\<lparr>StructuredDocument_ID := s\<rparr>)
         | JNull \<Rightarrow> decodeStructuredDocument kvs doc
         | _ \<Rightarrow> Inl errType)
      else if equalFold (fst kv) ''meta'' then
        (case decodeMapField (snd kv) (Meta doc) of
           Inl e \<Rightarrow> Inl e
         | Inr m \<Rightarrow> decodeStructuredDocument kvs (doc\<lparr>Meta := m\<rparr>))
      else if equalFold (fst kv) ''content'' then
        (case decodeMapField (snd kv) (Content doc) of
           Inl e \<Rightarrow> Inl e
         | Inr m \<Rightarrow> decodeStructuredDocument kvs (doc\<lparr>Content := m\<rparr>))
      else decodeStructuredDocument kvs doc)"

definition unmarshalStructuredDocument :: "bytes \<Rightarrow> error + StructuredDocument" where
  "unmarshalStructuredDocument b =
     (let zero = \<lparr>StructuredDocument_ID = [], Meta = None, Content = None\<rparr> in
      case parseJSON b of
        Inl e \<Rightarrow> Inl e
      | Inr JNull \<Rightarrow> Inr zero
      | Inr (JObject kvs) \<Rightarrow> decodeStructuredDocument kvs zero
      | Inr _ \<Rightarrow> Inl errType)"

text \<open>
  \<^verbatim>\<open>json.Marshal(v)\<close> for an \<^verbatim>\<open>interface{}\<close> that holds a value of a document, or
  nothing: the nil interface is written \<^verbatim>\<open>null\<close>.
\<close>

definition marshalInterface :: "goValue option \<Rightarrow> error + bytes" where
  "marshalInterface v = (case v of None \<Rightarrow> Inr ''null'' | Some g \<Rightarrow> marshalGoValue g)"

text \<open>
  The library does on the fragment what this section describes: where the description gives
  a result, the call of the library gives that result.
\<close>

definition libraryOnFragment :: "'jwe Imported \<Rightarrow> bool" where
  "libraryOnFragment I =
     ((\<forall>doc b. marshalStructuredDocument doc = Inr b
          \<longrightarrow> json_Marshal_StructuredDocument I doc = Inr b)
      \<and> (\<forall>b doc. unmarshalStructuredDocument b = Inr doc
          \<longrightarrow> json_Unmarshal_StructuredDocument I b = Inr doc)
      \<and> (\<forall>v b. marshalInterface v = Inr b \<longrightarrow> json_Marshal_interface I v = Inr b))"

section \<open>Storing a credential\<close>

text \<open>
  \<^verbatim>\<open>generateEDVCompatibleID\<close>. The argument \<open>rnd\<close> is what \<^verbatim>\<open>rand.Read\<close> did with
  the buffer of 16 bytes: an error, or the bytes it filled in.
\<close>

definition generateEDVCompatibleID :: "'jwe Imported \<Rightarrow> error + bytes \<Rightarrow> error + string" where
  "generateEDVCompatibleID I rnd =
     (case rnd of
        Inl err \<Rightarrow> Inl err
      | Inr randomBytes \<Rightarrow> Inr (base58_Encode I randomBytes))"

definition buildStructuredDoc ::
  "'jwe Imported \<Rightarrow> error + bytes \<Rightarrow> StoreVCRequest \<Rightarrow> error + StructuredDocument" where
  "buildStructuredDoc I rnd data =
     (case generateEDVCompatibleID I rnd of
        Inl err \<Rightarrow> Inl err
      | Inr edvDocID \<Rightarrow>
          (let credentialBytes = StoreVCRequest_Credential data;
               credentialJSONRawMessage = RawMessage credentialBytes
           in Inr \<lparr>StructuredDocument_ID = edvDocID, Meta = None,
                   Content = Some (AList.update ''message'' credentialJSONRawMessage [])\<rparr>))"

definition buildEncryptedDoc ::
  "'jwe Imported \<Rightarrow> ('jwe, 'kh, 'csl) Operation \<Rightarrow> StructuredDocument \<Rightarrow> string
     \<Rightarrow> error + EncryptedDocument" where
  "buildEncryptedDoc I op structuredDoc vcID =
     (case json_Marshal_StructuredDocument I structuredDoc of
        Inl err \<Rightarrow> Inl err
      | Inr marshalledStructuredDoc \<Rightarrow>
     (case jweEncrypter op marshalledStructuredDoc of
        Inl err \<Rightarrow> Inl err
      | Inr jwe \<Rightarrow>
     (case Serialize I jwe of
        Inl err \<Rightarrow> Inl err
      | Inr encryptedStructuredDoc \<Rightarrow>
     (case macCrypto op vcID (macKeyHandle op) of
        Inl err \<Rightarrow> Inl err
      | Inr vcIDMAC \<Rightarrow>
          (let vcIDIndexValueEncoded = base64_URLEncoding_EncodeToString I vcIDMAC;
               indexedAttribute =
                 \<lparr>IndexedAttribute_Name = vcIDIndexNameEncoded op,
                  IndexedAttribute_Value = vcIDIndexValueEncoded,
                  Unique = True\<rparr>;
               indexedAttributeCollection =
                 \<lparr>IndexedAttributeCollection_Sequence = 0,
                  HMAC = \<lparr>IDTypePair_ID = [], IDTypePair_Type = []\<rparr>,
                  IndexedAttributes = [indexedAttribute]\<rparr>;
               indexedAttributeCollections = [indexedAttributeCollection]
           in Inr \<lparr>EncryptedDocument_ID = StructuredDocument_ID structuredDoc,
                   EncryptedDocument_Sequence = 0,
                   JWE = encryptedStructuredDoc,
                   IndexedAttributeCollections = indexedAttributeCollections\<rparr>)))))"

text \<open>
  \<^verbatim>\<open>storeVC\<close>. It returns what it wrote to the response and the history of the vault
  calls. The credential \<open>vc\<close> is the parsed form of the request's credential text.
\<close>

definition storeVC ::
  "'jwe Imported \<Rightarrow> ('jwe, 'kh, 'csl) Operation \<Rightarrow> error + bytes \<Rightarrow> edvCall list
     \<Rightarrow> StoreVCRequest \<Rightarrow> Credential \<Rightarrow> rwEvent list \<times> edvCall list" where
  "storeVC I op rnd h data vc =
     (case buildStructuredDoc I rnd data of
        Inl err \<Rightarrow> ([WriteErrorResponse StatusBadRequest err], h)
      | Inr doc \<Rightarrow>
     (case buildEncryptedDoc I op doc (Credential_ID vc) of
        Inl err \<Rightarrow> ([WriteErrorResponse StatusInternalServerError err], h)
      | Inr encryptedDocument \<Rightarrow>
          (let (r1, h1) =
                 callCreateDocument (edvClient op) (StoreVCRequest_Profile data) encryptedDocument h;
               (r, h') =
                 (case r1 of
                    Inl err \<Rightarrow>
                      if Contains err (ErrVaultNotFound I) then
                        (let (r2, h2) =
                               callCreateDataVault (edvClient op)
                                 \<lparr>ReferenceID = StoreVCRequest_Profile data\<rparr> h1
                         in case r2 of
                              Inl err2 \<Rightarrow> (Inl err2, h2)
                            | Inr _ \<Rightarrow>
                                callCreateDocument (edvClient op) (StoreVCRequest_Profile data)
                                  encryptedDocument h2)
                      else (r1, h1)
                  | Inr _ \<Rightarrow> (r1, h1))
           in case r of
                Inl err \<Rightarrow> ([WriteErrorResponse StatusInternalServerError err], h')
              | Inr _ \<Rightarrow> ([], h'))))"

definition validateRequest :: "string \<Rightarrow> string \<Rightarrow> error option" where
  "validateRequest profileName vcID =
     (if profileName = [] then Some ''missing profile name''
      else if vcID = [] then Some ''missing verifiable credential ID''
      else None)"

definition parseAndVerifyVC :: "'jwe Imported \<Rightarrow> bytes \<Rightarrow> error + Credential" where
  "parseAndVerifyVC I vcBytes =
     (case NewCredential I vcBytes WithPublicKeyFetcher of
        Inl err \<Rightarrow> Inl err
      | Inr vc \<Rightarrow> Inr vc)"

text \<open>
  \<^verbatim>\<open>storeCredentialHandler\<close>. The argument \<open>body\<close> is what decoding the request body
  into a \<^verbatim>\<open>StoreVCRequest\<close> gave.
\<close>

definition storeCredentialHandler ::
  "'jwe Imported \<Rightarrow> ('jwe, 'kh, 'csl) Operation \<Rightarrow> error + bytes \<Rightarrow> edvCall list
     \<Rightarrow> error + StoreVCRequest \<Rightarrow> rwEvent list \<times> edvCall list" where
  "storeCredentialHandler I op rnd h body =
     (case body of
        Inl err \<Rightarrow> ([WriteErrorResponse StatusBadRequest (invalidRequestErrMsg @ '': '' @ err)], h)
      | Inr data \<Rightarrow>
     (case parseAndVerifyVC I (StoreVCRequest_Credential data) of
        Inl err \<Rightarrow>
          ([WriteErrorResponse StatusBadRequest (''unable to unmarshal the VC: '' @ err)], h)
      | Inr vc \<Rightarrow>
     (case validateRequest (StoreVCRequest_Profile data) (Credential_ID vc) of
        Some err \<Rightarrow> ([WriteErrorResponse StatusBadRequest err], h)
      | None \<Rightarrow> storeVC I op rnd h data vc)))"

section \<open>Retrieving a credential\<close>

definition queryVault ::
  "'jwe Imported \<Rightarrow> ('jwe, 'kh, 'csl) Operation \<Rightarrow> edvCall list \<Rightarrow> string \<Rightarrow> string
     \<Rightarrow> (error + string list) \<times> edvCall list" where
  "queryVault I op h vaultID vcID =
     (case macCrypto op vcID (macKeyHandle op) of
        Inl err \<Rightarrow> (Inl err, h)
      | Inr vcIDMAC \<Rightarrow>
          (let vcIDIndexValueEncoded = base64_URLEncoding_EncodeToString I vcIDMAC
           in callQueryVault (edvClient op) vaultID
                \<lparr>Query_Name = vcIDIndexNameEncoded op, Query_Value = vcIDIndexValueEncoded\<rparr> h))"

text \<open>
  \<^verbatim>\<open>getDocIDFromURL\<close>: the last of the parts between slashes. \<^verbatim>\<open>strings.Split\<close>
  returns at least one part, so the index \<^verbatim>\<open>len - 1\<close> is in range.
\<close>

definition getDocIDFromURL :: "string \<Rightarrow> string" where
  "getDocIDFromURL docURL =
     (let splitBySlashes = Split docURL (CHR ''/'');
          docIDToRetrieve = splitBySlashes ! (length splitBySlashes - 1)
      in docIDToRetrieve)"

text \<open>
  \<^verbatim>\<open>decryptedDoc.Content["message"]\<close>: a key that the map does not hold, and any key of
  the nil map, gives the nil interface.
\<close>

definition index :: "(string \<times> goValue) list option \<Rightarrow> string \<Rightarrow> goValue option" where
  "index m k = (case m of None \<Rightarrow> None | Some kvs \<Rightarrow> map_of kvs k)"

definition retrieveVC ::
  "'jwe Imported \<Rightarrow> ('jwe, 'kh, 'csl) Operation \<Rightarrow> edvCall list \<Rightarrow> string \<Rightarrow> string \<Rightarrow> string
     \<Rightarrow> (error + bytes) \<times> edvCall list" where
  "retrieveVC I op h profileName docID contextErrText =
     (let (r, h') = callReadDocument (edvClient op) profileName docID h in
      case r of
        Inl err \<Rightarrow>
          (Inl (''failed to read document while '' @ contextErrText @ '': '' @ err), h')
      | Inr document \<Rightarrow>
     (case jose_Deserialize I (JWE document) of
        Inl err \<Rightarrow> (Inl err, h')
      | Inr encryptedJWE \<Rightarrow>
     (case jweDecrypter op encryptedJWE of
        Inl err \<Rightarrow>
          (Inl (''decrypting document failed while '' @ contextErrText @ '': '' @ err), h')
      | Inr decryptedDocBytes \<Rightarrow>
     (case json_Unmarshal_StructuredDocument I decryptedDocBytes of
        Inl err \<Rightarrow>
          (Inl (''decrypted structured document unmarshalling failed '' @
                ''while '' @ contextErrText @ '': '' @ err), h')
      | Inr decryptedDoc \<Rightarrow>
     (case json_Marshal_interface I (index (Content decryptedDoc) ''message'') of
        Inl err \<Rightarrow>
          (Inl (''failed to marshall VC from decrypted document while '' @
                contextErrText @ '': '' @ err), h')
      | Inr retrievedVC \<Rightarrow> (Inr retrievedVC, h'))))))"

text \<open>
  The two loops of \<^verbatim>\<open>verifyMultipleMatchingVCsAreIdentical\<close>. The first reads every
  document and stops at the first read that fails. The second compares the payload at index
  0 with the payloads at the indexes from \<open>i\<close> on; it is \<open>True\<close> when it finds one that
  differs.
\<close>

fun retrieveVCs ::
  "'jwe Imported \<Rightarrow> ('jwe, 'kh, 'csl) Operation \<Rightarrow> edvCall list \<Rightarrow> string \<Rightarrow> string list
     \<Rightarrow> bytes list \<Rightarrow> (error + bytes list) \<times> edvCall list" where
  "retrieveVCs I op h profileName [] retrievedVCs = (Inr retrievedVCs, h)"
| "retrieveVCs I op h profileName (docURL # docURLs) retrievedVCs =
     (let docID = getDocIDFromURL docURL;
          (r, h') = retrieveVC I op h profileName docID
                      (''determining if the multiple VCs '' @
                       ''matching the given ID are the same'')
      in case r of
           Inl err \<Rightarrow> (Inl err, h')
         | Inr retrievedVC \<Rightarrow>
             retrieveVCs I op h' profileName docURLs (retrievedVCs @ [retrievedVC]))"

function differsFrom :: "bytes list \<Rightarrow> nat \<Rightarrow> bool" where
  "differsFrom retrievedVCs i =
     (if i < length retrievedVCs
      then (if retrievedVCs ! 0 \<noteq> retrievedVCs ! i then True
            else differsFrom retrievedVCs (Suc i))
      else False)"
  by pat_completeness auto
termination
  by (relation "measure (\<lambda>(retrievedVCs, i). length retrievedVCs - i)") auto

declare differsFrom.simps [simp del]

text \<open>
  The result is the status code with the error or the payload. With no payload at all the
  final \<^verbatim>\<open>retrievedVCs[0]\<close> is out of range and panics.
\<close>

definition verifyMultipleMatchingVCsAreIdentical ::
  "'jwe Imported \<Rightarrow> ('jwe, 'kh, 'csl) Operation \<Rightarrow> edvCall list \<Rightarrow> string \<Rightarrow> string list
     \<Rightarrow> (nat \<times> (error + bytes)) outcome \<times> edvCall list" where
  "verifyMultipleMatchingVCsAreIdentical I op h profileName docURLs =
     (let (r, h') = retrieveVCs I op h profileName docURLs [] in
      case r of
        Inl err \<Rightarrow> (Done (StatusInternalServerError, Inl err), h')
      | Inr retrievedVCs \<Rightarrow>
          if differsFrom retrievedVCs 1
          then (Done (StatusConflict, Inl errMultipleInconsistentVCsFoundForOneID), h')
          else (case retrievedVCs of
                  [] \<Rightarrow> (Panic ''index out of range'', h')
                | first # _ \<Rightarrow> (Done (StatusOK, Inr first), h')))"

text \<open>
  \<^verbatim>\<open>retrieveCredential\<close>. The case of no document writes the error response and does not
  return, so the final \<^verbatim>\<open>rw.Write\<close> runs with the nil payload.
\<close>

definition retrieveCredential ::
  "'jwe Imported \<Rightarrow> ('jwe, 'kh, 'csl) Operation \<Rightarrow> edvCall list \<Rightarrow> string \<Rightarrow> string list
     \<Rightarrow> rwEvent list outcome \<times> edvCall list" where
  "retrieveCredential I op h profileName docURLs =
     (case docURLs of
        [] \<Rightarrow>
          (Done [WriteErrorResponse StatusBadRequest
                   (''no VC under profile '' @ [CHR 0x22] @ profileName @ [CHR 0x22] @
                    '' was found with the given id''),
                 Write []], h)
      | [docURL] \<Rightarrow>
          (let docID = getDocIDFromURL docURL;
               (r, h') = retrieveVC I op h profileName docID ''retrieving VC''
           in case r of
                Inl err \<Rightarrow> (Done [WriteErrorResponse StatusInternalServerError err], h')
              | Inr retrievedVC \<Rightarrow> (Done [Write retrievedVC], h'))
      | _ \<Rightarrow>
          (let (r, h') = verifyMultipleMatchingVCsAreIdentical I op h profileName docURLs
           in case r of
                Panic p \<Rightarrow> (Panic p, h')
              | Done (statusCode, Inl err) \<Rightarrow> (Done [WriteErrorResponse statusCode err], h')
              | Done (statusCode, Inr retrievedVC) \<Rightarrow> (Done [Write retrievedVC], h')))"

text \<open>
  \<^verbatim>\<open>retrieveCredentialHandler\<close>, with the two query parameters of the request
  (\<open>id'\<close> is the parameter \<^verbatim>\<open>id\<close>).
\<close>

definition retrieveCredentialHandler ::
  "'jwe Imported \<Rightarrow> ('jwe, 'kh, 'csl) Operation \<Rightarrow> edvCall list \<Rightarrow> string \<Rightarrow> string
     \<Rightarrow> rwEvent list outcome \<times> edvCall list" where
  "retrieveCredentialHandler I op h id' profile =
     (case validateRequest profile id' of
        Some err \<Rightarrow> (Done [WriteErrorResponse StatusBadRequest err], h)
      | None \<Rightarrow>
          (let (r, h') = queryVault I op h profile id' in
           case r of
             Inl err \<Rightarrow> (Done [WriteErrorResponse StatusInternalServerError err], h')
           | Inr docURLs \<Rightarrow> retrieveCredential I op h' profile docURLs))"

section \<open>Issuing a credential\<close>

definition updateIssuer :: "Credential \<Rightarrow> DataProfile \<Rightarrow> Credential" where
  "updateIssuer credential profile =
     (if OverwriteIssuer profile \<or> ID (Issuer credential) = []
      then credential\<lparr>Issuer := \<lparr>ID = DID profile,
                                  CustomFields = [(''name'', JString (Name profile))]\<rparr>\<rparr>
      else credential)"

definition updateContext :: "'jwe Imported \<Rightarrow> Credential \<Rightarrow> DataProfile \<Rightarrow> Credential" where
  "updateContext I credential profile =
     (if SignatureType profile = JSONWebSignature2020 I
      then credential\<lparr>Context := Context credential @ [jsonWebSignature2020Context]\<rparr>
      else credential)"

text \<open>
  \<^verbatim>\<open>fmt.Errorf("... %s", idSplit)\<close> prints a slice of strings in brackets, the parts
  separated by a space.
\<close>

definition validateIssueCredOptions :: "IssueCredentialOptions option \<Rightarrow> error option" where
  "validateIssueCredOptions options =
     (case options of
        None \<Rightarrow> None
      | Some opts \<Rightarrow>
          if ProofPurpose opts \<noteq> [] then
            (if ProofPurpose opts = assertionMethod \<or> ProofPurpose opts = authentication
                \<or> ProofPurpose opts = capabilityDelegation
                \<or> ProofPurpose opts = capabilityInvocation
             then None
             else Some (''invalid proof option : '' @ ProofPurpose opts))
          else if AssertionMethod opts \<noteq> [] then
            (let idSplit = Split (AssertionMethod opts) (CHR ''#'') in
             if length idSplit \<noteq> 2
             then Some (''invalid assertion method : ['' @ join '' '' idSplit @ '']'')
             else None)
          else None)"

definition getIssuerSigningOpts :: "IssueCredentialOptions option \<Rightarrow> SigningOpts list" where
  "getIssuerSigningOpts opts =
     (case opts of
        None \<Rightarrow> []
      | Some opts \<Rightarrow>
          (let verificationMethod =
                 (if VerificationMethod opts = [] then AssertionMethod opts
                  else VerificationMethod opts)
           in [WithVerificationMethod verificationMethod,
               WithPurpose (ProofPurpose opts),
               WithCreated (IssueCredentialOptions_Created opts),
               WithChallenge (Challenge opts),
               WithDomain (Domain opts)]))"

text \<open>
  What a handler writes once the signer has answered.
\<close>

definition respondSigned :: "error + Credential \<Rightarrow> rwEvent list" where
  "respondSigned r =
     (case r of
        Inl err \<Rightarrow>
          [WriteErrorResponse StatusInternalServerError (''failed to sign credential: '' @ err)]
      | Inr signedVC \<Rightarrow> [WriteHeader StatusCreated, WriteResponse signedVC])"

text \<open>
  \<^verbatim>\<open>issueCredentialHandler\<close>. The arguments are the state \<open>s\<close> of the status lists, the
  profile ID of the path and what decoding the request body into an
  \<^verbatim>\<open>IssueCredentialRequest\<close> gave.
\<close>

definition issueCredentialHandler ::
  "'jwe Imported \<Rightarrow> ('jwe, 'kh, 'csl) Operation \<Rightarrow> 'csl \<Rightarrow> string
     \<Rightarrow> error + IssueCredentialRequest \<Rightarrow> rwEvent list \<times> 'csl" where
  "issueCredentialHandler I op s profileID body =
     (case profileStore op profileID of
        Inl err \<Rightarrow>
          ([WriteErrorResponse StatusBadRequest
              (''invalid issuer profile - id='' @ profileID @ '': err='' @ err)], s)
      | Inr profile \<Rightarrow>
     (case body of
        Inl err \<Rightarrow>
          ([WriteErrorResponse StatusBadRequest (invalidRequestErrMsg @ '': '' @ err)], s)
      | Inr cred \<Rightarrow>
     (case validateIssueCredOptions (Opts cred) of
        Some err \<Rightarrow> ([WriteErrorResponse StatusBadRequest err], s)
      | None \<Rightarrow>
     (case NewCredential I (IssueCredentialRequest_Credential cred) WithDisabledProofCheck of
        Inl err \<Rightarrow>
          ([WriteErrorResponse StatusBadRequest (''failed to validate credential: '' @ err)], s)
      | Inr credential \<Rightarrow>
          (let (r, s') =
                 (if \<not> DisableVCStatus profile then
                    (case CreateStatusID (vcStatusManager op) s of
                       (Inl err, s') \<Rightarrow> (Inl err, s')
                     | (Inr statusID, s') \<Rightarrow>
                         (Inr (credential\<lparr>Status := Some statusID,
                                 Context := Context credential @ [cslstatus_Context I]\<rparr>), s'))
                  else (Inr credential, s))
           in case r of
                Inl err \<Rightarrow>
                  ([WriteErrorResponse StatusInternalServerError
                      (''failed to add credential status: '' @ err)], s')
              | Inr credential \<Rightarrow>
                  (let credential = updateContext I credential profile;
                       credential = updateIssuer credential profile
                   in (respondSigned
                         (crypto op profile credential (getIssuerSigningOpts (Opts cred))),
                       s')))))))"

subsection \<open>Composing a credential\<close>

text \<open>
  \<^verbatim>\<open>decodeTypedID\<close>: nothing for a fragment of length 0, else one value if the fragment
  decodes as one, else the list if it decodes as a list, else the error of the second
  attempt.
\<close>

definition decodeTypedID :: "'jwe Imported \<Rightarrow> bytes option \<Rightarrow> error + TypedID list" where
  "decodeTypedID I typedIDBytes =
     (case typedIDBytes of
        None \<Rightarrow> Inr []
      | Some b \<Rightarrow>
          if length b = 0 then Inr []
          else (case unmarshalTypedID I b of
                  Inr singleTypedID \<Rightarrow> Inr [singleTypedID]
                | Inl _ \<Rightarrow>
                    (case unmarshalTypedIDs I b of
                       Inr composedTypedID \<Rightarrow> Inr composedTypedID
                     | Inl err \<Rightarrow> Inl err)))"

text \<open>
  The local struct \<^verbatim>\<open>proofFormatOptions\<close> of \<^verbatim>\<open>getComposeSigningOpts\<close> and
  \<^verbatim>\<open>json.Unmarshal\<close> into it: the text must be an object or \<^verbatim>\<open>null\<close>.
\<close>

record proofFormatOptions =
  KeyID :: string
  Purpose :: string
  proofFormatOptions_Created :: "Time option"

fun decodeProofFormatOptions ::
  "'jwe Imported \<Rightarrow> (string \<times> jvalue) list \<Rightarrow> proofFormatOptions
     \<Rightarrow> error + proofFormatOptions" where
  "decodeProofFormatOptions I [] p = Inr p"
| "decodeProofFormatOptions I (kv # kvs) p =
     (if equalFold (fst kv) ''kid'' then
        (case snd kv of
           JString s \<Rightarrow> decodeProofFormatOptions I kvs (p\<lparr>KeyID := s\<rparr>)
         | JNull \<Rightarrow> decodeProofFormatOptions I kvs p
         | _ \<Rightarrow> Inl errType)
      else if equalFold (fst kv) ''proofPurpose'' then
        (case snd kv of
           JString s \<Rightarrow> decodeProofFormatOptions I kvs (p\<lparr>Purpose := s\<rparr>)
         | JNull \<Rightarrow> decodeProofFormatOptions I kvs p
         | _ \<Rightarrow> Inl errType)
      else if equalFold (fst kv) ''created'' then
        (case snd kv of
           JString s \<Rightarrow>
             (case unmarshalTime I s of
                Inl e \<Rightarrow> Inl e
              | Inr t \<Rightarrow>
                  decodeProofFormatOptions I kvs (p\<lparr>proofFormatOptions_Created := Some t\<rparr>))
         | JNull \<Rightarrow> decodeProofFormatOptions I kvs (p\<lparr>proofFormatOptions_Created := None\<rparr>)
         | _ \<Rightarrow> Inl errType)
      else decodeProofFormatOptions I kvs p)"

definition unmarshalProofFormatOptions ::
  "'jwe Imported \<Rightarrow> bytes \<Rightarrow> proofFormatOptions \<Rightarrow> error + proofFormatOptions" where
  "unmarshalProofFormatOptions I b p =
     (case parseJSON b of
        Inl e \<Rightarrow> Inl e
      | Inr JNull \<Rightarrow> Inr p
      | Inr (JObject kvs) \<Rightarrow> decodeProofFormatOptions I kvs p
      | Inr _ \<Rightarrow> Inl errType)"

definition getComposeSigningOpts ::
  "'jwe Imported \<Rightarrow> ComposeCredentialRequest \<Rightarrow> error + SigningOpts list" where
  "getComposeSigningOpts I composeCredReq =
     (let zero = \<lparr>KeyID = [], Purpose = [], proofFormatOptions_Created = None\<rparr> in
      case (case ProofFormatOptions composeCredReq of
              None \<Rightarrow> Inr zero
            | Some b \<Rightarrow> unmarshalProofFormatOptions I b zero) of
        Inl err \<Rightarrow> Inl (''failed to prepare signing opts: '' @ err)
      | Inr proofFormatOptions \<Rightarrow>
          (let representation =
                 (if ProofFormat composeCredReq \<noteq> [] then ProofFormat composeCredReq
                  else ''jws'')
           in Inr [WithPurpose (Purpose proofFormatOptions),
                   WithVerificationMethod (KeyID proofFormatOptions),
                   WithSigningRepresentation representation,
                   WithCreated (proofFormatOptions_Created proofFormatOptions)]))"

text \<open>
  \<^verbatim>\<open>buildCredential\<close>. Decoding the claims \<^verbatim>\<open>null\<close> sets the subject map to nil, and
  the assignment of its \<^verbatim>\<open>id\<close> entry then panics. A nil evidence map in the
  \<^verbatim>\<open>Evidence\<close> interface is written as \<open>JNull\<close>.
\<close>

definition buildCredential ::
  "'jwe Imported \<Rightarrow> ComposeCredentialRequest \<Rightarrow> (error + Credential) outcome" where
  "buildCredential I composeCredReq =
     (let credential =
            \<lparr>Context = [''https://www.w3.org/2018/credentials/v1''],
             Credential_ID = [],
             Types = (if length (ComposeCredentialRequest_Types composeCredReq) \<noteq> 0
                      then ComposeCredentialRequest_Types composeCredReq
                      else [''VerifiableCredential'']),
             Subject = JNull,
             Issuer = \<lparr>ID = [], CustomFields = []\<rparr>,
             Issued = IssuanceDate composeCredReq,
             Expired = ExpirationDate composeCredReq,
             Status = None,
             TermsOfUse = [],
             Evidence = JNull\<rparr>
      in
      case (case Claims composeCredReq of
              None \<Rightarrow> Inr (Some [])
            | Some b \<Rightarrow> json_Unmarshal_map I b (Some [])) of
        Inl err \<Rightarrow> Done (Inl err)
      | Inr None \<Rightarrow> Panic ''assignment to entry in nil map''
      | Inr (Some credentialSubject) \<Rightarrow>
          (let credentialSubject =
                 AList.update ''id'' (JString (ComposeCredentialRequest_Subject composeCredReq))
                   credentialSubject;
               credential = credential\<lparr>Subject := JObject credentialSubject\<rparr>;
               credential = credential\<lparr>Issuer :=
                 \<lparr>ID = ComposeCredentialRequest_Issuer composeCredReq, CustomFields = []\<rparr>\<rparr>
           in
           case decodeTypedID I (ComposeCredentialRequest_TermsOfUse composeCredReq) of
             Inl err \<Rightarrow> Done (Inl err)
           | Inr termsOfUse \<Rightarrow>
               (let credential = credential\<lparr>TermsOfUse := termsOfUse\<rparr> in
                case ComposeCredentialRequest_Evidence composeCredReq of
                  None \<Rightarrow> Done (Inr credential)
                | Some b \<Rightarrow>
                    (case json_Unmarshal_map I b (Some []) of
                       Inl err \<Rightarrow> Done (Inl err)
                     | Inr evidence \<Rightarrow>
                         Done (Inr (credential\<lparr>Evidence :=
                           (case evidence of None \<Rightarrow> JNull | Some m \<Rightarrow> JObject m)\<rparr>))))))"

text \<open>
  \<^verbatim>\<open>composeAndIssueCredentialHandler\<close>, with the profile ID of the path (\<open>id'\<close>) and
  what decoding the request body into a \<^verbatim>\<open>ComposeCredentialRequest\<close> gave.
\<close>

definition composeAndIssueCredentialHandler ::
  "'jwe Imported \<Rightarrow> ('jwe, 'kh, 'csl) Operation \<Rightarrow> 'csl \<Rightarrow> string
     \<Rightarrow> error + ComposeCredentialRequest \<Rightarrow> rwEvent list outcome \<times> 'csl" where
  "composeAndIssueCredentialHandler I op s id' body =
     (case profileStore op id' of
        Inl err \<Rightarrow>
          (Done [WriteErrorResponse StatusBadRequest (''invalid issuer profile: '' @ err)], s)
      | Inr profile \<Rightarrow>
     (case body of
        Inl err \<Rightarrow>
          (Done [WriteErrorResponse StatusBadRequest (invalidRequestErrMsg @ '': '' @ err)], s)
      | Inr composeCredReq \<Rightarrow>
     (case buildCredential I composeCredReq of
        Panic p \<Rightarrow> (Panic p, s)
      | Done (Inl err) \<Rightarrow>
          (Done [WriteErrorResponse StatusBadRequest
                   (''failed to build credential: '' @ err)], s)
      | Done (Inr credential) \<Rightarrow>
          (let (r, s') =
                 (if \<not> DisableVCStatus profile then
                    (case CreateStatusID (vcStatusManager op) s of
                       (Inl err, s') \<Rightarrow> (Inl err, s')
                     | (Inr statusID, s') \<Rightarrow>
                         (Inr (credential\<lparr>Status := Some statusID,
                                 Context := Context credential @ [cslstatus_Context I]\<rparr>), s'))
                  else (Inr credential, s))
           in case r of
                Inl err \<Rightarrow>
                  (Done [WriteErrorResponse StatusInternalServerError
                           (''failed to add credential status: '' @ err)], s')
              | Inr credential \<Rightarrow>
                  (let credential = updateContext I credential profile;
                       credential = updateIssuer credential profile
                   in case getComposeSigningOpts I composeCredReq of
                        Inl err \<Rightarrow>
                          (Done [WriteErrorResponse StatusBadRequest
                                   (''failed to prepare signing options: '' @ err)], s')
                      | Inr opts \<Rightarrow>
                          (Done (respondSigned (crypto op profile credential opts)), s'))))))"

section \<open>Updating the status of a credential\<close>

text \<open>
  \<^verbatim>\<open>updateCredentialStatusHandler\<close>. The profile name is read by the type assertion
  \<^verbatim>\<open>vc.Issuer.CustomFields["name"].(string)\<close>, which panics unless the entry is a
  string.
\<close>

definition updateCredentialStatusHandler ::
  "'jwe Imported \<Rightarrow> ('jwe, 'kh, 'csl) Operation \<Rightarrow> 'csl
     \<Rightarrow> error + UpdateCredentialStatusRequest \<Rightarrow> rwEvent list outcome \<times> 'csl" where
  "updateCredentialStatusHandler I op s body =
     (case body of
        Inl err \<Rightarrow>
          (Done [WriteErrorResponse StatusBadRequest
                   (''failed to decode request received: '' @ err)], s)
      | Inr data \<Rightarrow>
     (case parseAndVerifyVC I (UpdateCredentialStatusRequest_Credential data) of
        Inl err \<Rightarrow>
          (Done [WriteErrorResponse StatusBadRequest
                   (''unable to unmarshal the VC: '' @ err)], s)
      | Inr vc \<Rightarrow>
     (case map_of (CustomFields (Issuer vc)) ''name'' of
        Some (JString name) \<Rightarrow>
          (case profileStore op name of
             Inl err \<Rightarrow>
               (Done [WriteErrorResponse StatusBadRequest
                        (''failed to get profile: '' @ err)], s)
           | Inr profile \<Rightarrow>
               if DisableVCStatus profile then
                 (Done [WriteErrorResponse StatusBadRequest
                          (''vc status is disabled for profile '' @ Name profile)], s)
               else
                 (case UpdateVCStatus (vcStatusManager op) vc profile
                         (UpdateCredentialStatusRequest_Status data)
                         (UpdateCredentialStatusRequest_StatusReason data) s of
                    (Some err, s') \<Rightarrow>
                      (Done [WriteErrorResponse StatusBadRequest
                               (''failed to update vc status: '' @ err)], s')
                  | (None, s') \<Rightarrow> (Done [WriteHeader StatusOK], s')))
      | _ \<Rightarrow> (Panic ''interface conversion: interface {} is not string'', s))))"

section \<open>The status-list allocator\<close>

text \<open>
  Modelled from the spec: the allocator of status slots (package \<^verbatim>\<open>cslstatus\<close>, which
  \<^verbatim>\<open>New\<close> instantiates with the identifier prefix and \<^verbatim>\<open>cslSize\<close>), whose code is
  not among the sources. The spec gives a shard a public identifier that is a URL with a
  sequential suffix, and a fixed capacity; the allocator keeps a pointer to the current shard
  and its fill count. \<open>Allocate\<close>: if the current shard has free capacity, claim the next
  index and return it; otherwise create a new shard with a fresh identifier and claim index 0
  of it. A shard identifier is the pair of the URL and the suffix.
\<close>

record StatusSlot =
  shard :: "string \<times> nat"
  slotIndex :: nat

record Allocator =
  url :: string
  capacity :: nat
  current :: nat
  fillCount :: nat

definition Allocate :: "Allocator \<Rightarrow> StatusSlot \<times> Allocator" where
  "Allocate a =
     (if fillCount a < capacity a
      then (\<lparr>shard = (url a, current a), slotIndex = fillCount a\<rparr>,
            a\<lparr>fillCount := fillCount a + 1\<rparr>)
      else (\<lparr>shard = (url a, current a + 1), slotIndex = 0\<rparr>,
            a\<lparr>current := current a + 1, fillCount := 1\<rparr>))"

text \<open>\<open>n\<close> allocations, one after the other.\<close>

fun allocations :: "nat \<Rightarrow> Allocator \<Rightarrow> StatusSlot list \<times> Allocator" where
  "allocations 0 a = ([], a)"
| "allocations (Suc n) a =
     (let (slot, a') = Allocate a; (slots, a'') = allocations n a' in (slot # slots, a''))"

section \<open>Collaborators for concrete runs\<close>

text \<open>
  The theorems below hold for all collaborators. To run the operations on concrete inputs
  they are instantiated with the simplest collaborators: a vault that keeps its documents
  in memory, an encryption that returns its plaintext, a signer that returns the credential
  it is given, and for \<^verbatim>\<open>encoding/json\<close> its description on the fragment.
\<close>

definition exampleProfile :: DataProfile where
  "exampleProfile =
     \<lparr>Name = ''profileA'', URI = ''https://example.com/credentials'',
      DID = ''did:example:issuer'', SignatureType = ''Ed25519Signature2018'',
      SignatureRepresentation = 0, Creator = ''did:example:issuer#key-1'', Created = None,
      DisableVCStatus = False, OverwriteIssuer = True\<rparr>"

definition exampleCredential :: Credential where
  "exampleCredential =
     \<lparr>Context = [''https://www.w3.org/2018/credentials/v1''],
      Credential_ID = ''http://example.edu/credentials/1872'',
      Types = [''VerifiableCredential''],
      Subject = JObject [(''id'', JString ''did:example:subject'')],
      Issuer = \<lparr>ID = ''did:example:other'', CustomFields = []\<rparr>,
      Issued = None, Expired = None, Status = None, TermsOfUse = [], Evidence = JNull\<rparr>"

text \<open>
  The vault in memory: a document is kept when its vault exists, a write to a vault that does
  not exist fails with the vault-not-found error, a query returns the locations of the
  documents that carry the queried attribute.
\<close>

fun applyCall ::
  "edvCall \<Rightarrow> string list \<times> EncryptedDocument list \<Rightarrow> string list \<times> EncryptedDocument list" where
  "applyCall (CreateDataVaultCall config) (vaults, docs) = (ReferenceID config # vaults, docs)"
| "applyCall (CreateDocumentCall vaultID document) (vaults, docs) =
     (if vaultID \<in> set vaults then (vaults, docs @ [document]) else (vaults, docs))"
| "applyCall call st = st"

definition vaultState :: "edvCall list \<Rightarrow> string list \<times> EncryptedDocument list" where
  "vaultState h = fold applyCall h ([], [])"

definition hasAttribute :: "Query \<Rightarrow> EncryptedDocument \<Rightarrow> bool" where
  "hasAttribute query document =
     list_ex (\<lambda>collection.
       list_ex (\<lambda>a. IndexedAttribute_Name a = Query_Name query
                   \<and> IndexedAttribute_Value a = Query_Value query)
         (IndexedAttributes collection))
       (IndexedAttributeCollections document)"

definition memoryVault :: EDVClient where
  "memoryVault =
     \<lparr>CreateDataVault = (\<lambda>h config. Inr (ReferenceID config)),
      CreateDocument = (\<lambda>h vaultID document.
        if vaultID \<in> set (fst (vaultState h))
        then Inr (vaultID @ ''/docs/'' @ EncryptedDocument_ID document)
        else Inl ''specified vault does not exist''),
      ReadDocument = (\<lambda>h vaultID docID.
        case filter (\<lambda>d. EncryptedDocument_ID d = docID) (snd (vaultState h)) of
          [] \<Rightarrow> Inl ''document not found''
        | d # _ \<Rightarrow> Inr d),
      QueryVault = (\<lambda>h vaultID query.
        Inr (map (\<lambda>d. vaultID @ ''/docs/'' @ EncryptedDocument_ID d)
               (filter (hasAttribute query) (snd (vaultState h)))))\<rparr>"

text \<open>A vault that has no vault of the profile and refuses to create one.\<close>

definition refusingVault :: EDVClient where
  "refusingVault =
     memoryVault\<lparr>CreateDataVault := (\<lambda>h config. Inl ''vault creation refused'')\<rparr>"

text \<open>A stand-in for the decoders of \<^verbatim>\<open>verifiable.TypedID\<close>.\<close>

definition typedIDOf :: "jvalue \<Rightarrow> error + TypedID" where
  "typedIDOf v =
     (case v of
        JObject kvs \<Rightarrow>
          Inr \<lparr>TypedID_ID = (case map_of kvs ''id'' of Some (JString s) \<Rightarrow> s | _ \<Rightarrow> []),
               TypedID_Type = (case map_of kvs ''type'' of Some (JString s) \<Rightarrow> s | _ \<Rightarrow> []),
               TypedID_CustomFields = []\<rparr>
      | _ \<Rightarrow> Inl errType)"

fun typedIDsOf :: "jvalue list \<Rightarrow> error + TypedID list" where
  "typedIDsOf [] = Inr []"
| "typedIDsOf (v # vs) =
     (case typedIDOf v of
        Inl e \<Rightarrow> Inl e
      | Inr t \<Rightarrow> (case typedIDsOf vs of Inl e \<Rightarrow> Inl e | Inr ts \<Rightarrow> Inr (t # ts)))"

definition testImported :: "bytes Imported" where
  "testImported =
     \<lparr>ErrVaultNotFound = ''specified vault does not exist'',
      JSONWebSignature2020 = ''JsonWebSignature2020'',
      cslstatus_Context = ''https://w3id.org/vc-status-list-2017/v1'',
      NewCredential = (\<lambda>b opt. if b = [] then Inl errUnexpectedEnd else Inr exampleCredential),
      base58_Encode = (\<lambda>b. b),
      base64_URLEncoding_EncodeToString = (\<lambda>b. b),
      jose_Deserialize = Inr,
      Serialize = Inr,
      unmarshalTypedID = (\<lambda>b. case parseJSON b of Inl e \<Rightarrow> Inl e | Inr v \<Rightarrow> typedIDOf v),
      unmarshalTypedIDs = (\<lambda>b. case parseJSON b of
                                   Inl e \<Rightarrow> Inl e
                                 | Inr (JArray vs) \<Rightarrow> typedIDsOf vs
                                 | Inr _ \<Rightarrow> Inl errType),
      unmarshalTime = Inr,
      json_Marshal_StructuredDocument = marshalStructuredDocument,
      json_Unmarshal_StructuredDocument = unmarshalStructuredDocument,
      json_Marshal_interface = marshalInterface,
      json_Unmarshal_map = unmarshalMap\<rparr>"

definition testStatusManager :: "Allocator vcStatusManager" where
  "testStatusManager =
     \<lparr>CreateStatusID = (\<lambda>a. case Allocate a of
         (slot, a') \<Rightarrow>
           (Inr \<lparr>TypedID_ID = fst (shard slot), TypedID_Type = ''CredentialStatusList2017'',
                  TypedID_CustomFields = []\<rparr>, a')),
      UpdateVCStatus = (\<lambda>v profile status statusReason a. (None, a))\<rparr>"

definition testOperation :: "(bytes, string, Allocator) Operation" where
  "testOperation =
     \<lparr>profileStore = (\<lambda>name. if name = Name exampleProfile then Inr exampleProfile
                              else Inl ''specified profile ID does not exist''),
      edvClient = memoryVault,
      crypto = (\<lambda>profile credential opts. Inr credential),
      jweEncrypter = Inr,
      jweDecrypter = Inr,
      vcStatusManager = testStatusManager,
      macKeyHandle = ''mac-key'',
      macCrypto = (\<lambda>b kh. Inr (kh @ b)),
      vcIDIndexNameEncoded = ''vc-id-index''\<rparr>"

definition testAllocator :: Allocator where
  "testAllocator = \<lparr>url = ''https://example.com/status'', capacity = cslSize, current = 1,
                     fillCount = 0\<rparr>"

section \<open>Notions for the statements and proofs\<close>

text \<open>
  The text of an array after its first element, and of an object after its first member.
\<close>

fun elementsTail :: "jvalue list \<Rightarrow> string" where
  "elementsTail [] = '']''"
| "elementsTail (v # vs) = '','' @ render v @ elementsTail vs"

fun membersTail :: "(string \<times> jvalue) list \<Rightarrow> string" where
  "membersTail [] = ''}''"
| "membersTail (kv # kvs) = '','' @ quote (fst kv) @ '':'' @ render (snd kv) @ membersTail kvs"

text \<open>A configuration of the scanner holds only values with plain strings.\<close>

definition plainMembers :: "(string \<times> jvalue) list \<Rightarrow> bool" where
  "plainMembers kvs = list_all (\<lambda>kv. plain (fst kv) \<and> plainValue (snd kv)) kvs"

fun plainFrame :: "frame \<Rightarrow> bool" where
  "plainFrame (InArray vs) = list_all plainValue vs"
| "plainFrame (InObject kvs k) = (plainMembers kvs \<and> plain k)"

fun plainMode :: "mode \<Rightarrow> bool" where
  "plainMode (ExpectKey kvs) = plainMembers kvs"
| "plainMode (InKey kvs k) = (plainMembers kvs \<and> plain k)"
| "plainMode (ExpectColon kvs k) = (plainMembers kvs \<and> plain k)"
| "plainMode (InString s) = plain s"
| "plainMode (InLiteral l v) = plainValue v"
| "plainMode (AfterValue v) = plainValue v"
| "plainMode m = True"

definition plainCfg :: "mode \<times> frame list \<Rightarrow> bool" where
  "plainCfg cfg = (plainMode (fst cfg) \<and> list_all plainFrame (snd cfg))"

text \<open>
  The canonical values: plain strings, and in every object the keys in strictly ascending
  order. Their text is what \<^verbatim>\<open>json.Marshal\<close> writes for them.
\<close>

fun canonical :: "jvalue \<Rightarrow> bool" where
  "canonical (JString s) = plain s"
| "canonical (JNumber n) = False"
| "canonical (JArray vs) = list_all canonical vs"
| "canonical (JObject kvs) =
     (list_all (\<lambda>kv. plain (fst kv) \<and> canonical (snd kv)) kvs
      \<and> sorted_wrt (<) (map fst kvs))"
| "canonical v = True"

text \<open>
  The calls that reading the documents at the given locations adds to the history, and the
  payload of the document at index \<open>i\<close>: what \<^verbatim>\<open>retrieveVC\<close> returns for it when the
  documents are read one after the other, as \<^verbatim>\<open>verifyMultipleMatchingVCsAreIdentical\<close>
  reads them.
\<close>

definition reads :: "string \<Rightarrow> string list \<Rightarrow> edvCall list" where
  "reads profileName docURLs =
     map (\<lambda>docURL. ReadDocumentCall profileName (getDocIDFromURL docURL)) docURLs"

definition payloadOf ::
  "'jwe Imported \<Rightarrow> ('jwe, 'kh, 'csl) Operation \<Rightarrow> edvCall list \<Rightarrow> string \<Rightarrow> string list \<Rightarrow> nat
     \<Rightarrow> error + bytes" where
  "payloadOf I op h profileName docURLs i =
     fst (retrieveVC I op (h @ reads profileName (take i docURLs)) profileName
            (getDocIDFromURL (docURLs ! i))
            (''determining if the multiple VCs '' @ ''matching the given ID are the same''))"

text \<open>
  The plaintext of a document of the vault: what \<^verbatim>\<open>retrieveVC\<close> holds after it has
  read, deserialised and decrypted the document.
\<close>

definition decryptedDocument ::
  "'jwe Imported \<Rightarrow> ('jwe, 'kh, 'csl) Operation \<Rightarrow> edvCall list \<Rightarrow> string \<Rightarrow> string
     \<Rightarrow> error + bytes" where
  "decryptedDocument I op h profileName docID =
     (case ReadDocument (edvClient op) h profileName docID of
        Inl err \<Rightarrow> Inl err
      | Inr document \<Rightarrow>
          (case jose_Deserialize I (JWE document) of
             Inl err \<Rightarrow> Inl err
           | Inr encryptedJWE \<Rightarrow> jweDecrypter op encryptedJWE))"

text \<open>
  The text of a structured document with no metadata whose content is a message: what
  \<^verbatim>\<open>json.Marshal\<close> writes for the document that \<^verbatim>\<open>buildStructuredDoc\<close> builds.
\<close>

definition documentText :: "string \<Rightarrow> jvalue \<Rightarrow> bytes" where
  "documentText docID message =
     render (JObject [(''id'', JString docID), (''meta'', JNull),
                      (''content'', JObject [(''message'', message)])])"
definition exampleStatusRequest :: UpdateCredentialStatusRequest where
  "exampleStatusRequest =
     \<lparr>UpdateCredentialStatusRequest_Credential = ''{}'',
      UpdateCredentialStatusRequest_Status = ''Revoked'',
      UpdateCredentialStatusRequest_StatusReason = ''Disciplinary action''\<rparr>"

definition exampleStructuredDoc :: StructuredDocument where
  "exampleStructuredDoc =
     \<lparr>StructuredDocument_ID = ''0123456789abcdef'', Meta = None,
      Content = Some [(''message'', RawMessage (render (JObject [(''id'', JString ''http://example.edu/credentials/1872'')])))]\<rparr>"

definition exampleEncryptedDocument :: EncryptedDocument where
  "exampleEncryptedDocument =
     \<lparr>EncryptedDocument_ID = ''0123456789abcdef'',
      EncryptedDocument_Sequence = 0,
      JWE = render (JObject [(''id'', JString ''0123456789abcdef''), (''meta'', JNull),
              (''content'', JObject [(''message'', JObject [(''id'', JString ''http://example.edu/credentials/1872'')])])]),
      IndexedAttributeCollections =
        [\<lparr>IndexedAttributeCollection_Sequence = 0,
          HMAC = \<lparr>IDTypePair_ID = [], IDTypePair_Type = []\<rparr>,
          IndexedAttributes =
            [\<lparr>IndexedAttribute_Name = ''vc-id-index'',
              IndexedAttribute_Value = ''mac-keyhttp://example.edu/credentials/1872'',
              Unique = True\<rparr>]\<rparr>]\<rparr>"

text \<open>A request to store a credential, and the history of the vault after it.\<close>

definition exampleRequest :: StoreVCRequest where
  "exampleRequest =
     \<lparr>StoreVCRequest_Profile = ''profileA'',
      StoreVCRequest_Credential = render (JObject [(''id'', JString ''http://example.edu/credentials/1872'')])\<rparr>"

definition storedOnce :: "edvCall list" where
  "storedOnce =
     snd (storeVC testImported testOperation (Inr ''0123456789abcdef'') []
            exampleRequest exampleCredential)"

definition exampleURLs :: "string list" where
  "exampleURLs = [''profileA/docs/0123456789abcdef'', ''profileA/docs/fedcba9876543210'']"

text \<open>A profile whose status is disabled, and requests to issue and to compose.\<close>

definition disabledProfile :: DataProfile where
  "disabledProfile = exampleProfile\<lparr>DisableVCStatus := True\<rparr>"

definition disabledOperation :: "(bytes, string, Allocator) Operation" where
  "disabledOperation = testOperation\<lparr>profileStore := (\<lambda>name. Inr disabledProfile)\<rparr>"

definition exampleIssueRequest :: IssueCredentialRequest where
  "exampleIssueRequest = \<lparr>IssueCredentialRequest_Credential = ''{}'', Opts = None\<rparr>"

definition exampleComposeRequest :: ComposeCredentialRequest where
  "exampleComposeRequest =
     \<lparr>ComposeCredentialRequest_Issuer = ''did:example:other'',
      ComposeCredentialRequest_Subject = ''did:example:subject'',
      ComposeCredentialRequest_Types = [],
      IssuanceDate = None, ExpirationDate = None, Claims = None,
      ComposeCredentialRequest_Evidence = None,
      ComposeCredentialRequest_TermsOfUse = None,
      ProofFormat = [], ProofFormatOptions = None\<rparr>"

definition composedCredential :: Credential where
  "composedCredential =
     \<lparr>Context = [''https://www.w3.org/2018/credentials/v1''],
      Credential_ID = [],
      Types = [''VerifiableCredential''],
      Subject = JObject [(''id'', JString ''did:example:subject'')],
      Issuer = \<lparr>ID = ''did:example:other'', CustomFields = []\<rparr>,
      Issued = None, Expired = None, Status = None, TermsOfUse = [], Evidence = JNull\<rparr>"

text \<open>Fragments of a compose request: terms of use as one object and as an array, and
  proof-format options as an array of one object.\<close>

definition policy :: jvalue where
  "policy = JObject [(''id'', JString ''http://example.com/policies/credential/4''),
                     (''type'', JString ''IssuerPolicy'')]"

definition termsOfUseSingle :: bytes where
  "termsOfUseSingle = render policy"

definition termsOfUseArray :: bytes where
  "termsOfUseArray = render (JArray [policy, policy])"

definition optionsArray :: bytes where
  "optionsArray = render (JArray [JObject [(''kid'', JString ''key-1'')]])"

definition exampleStatusID :: TypedID where
  "exampleStatusID =
     \<lparr>TypedID_ID = ''https://example.com/status'', TypedID_Type = ''CredentialStatusList2017'',
      TypedID_CustomFields = []\<rparr>"

text \<open>
  The text of a university degree credential as a wallet would send it, the keys in the
  usual order of the data model; the same members in the sorted order of their keys; and
  the credential with a later date of issuance. The parser reads all three as credentials
  with the same ID.
\<close>

definition exampleVCMembers :: "(string \<times> jvalue) list" where
  "exampleVCMembers =
     [(''@context'', JArray [JString ''https://www.w3.org/2018/credentials/v1'',
                             JString ''https://www.w3.org/2018/credentials/examples/v1'']),
      (''id'', JString ''http://example.edu/credentials/1872''),
      (''type'', JArray [JString ''VerifiableCredential'',
                         JString ''UniversityDegreeCredential'']),
      (''issuer'', JString ''did:example:76e12ec712ebc6f1c221ebfeb1f''),
      (''issuanceDate'', JString ''2010-01-01T19:23:24Z''),
      (''credentialSubject'',
         JObject [(''id'', JString ''did:example:ebfeb1f712ebc6f1c276e12ec21''),
                  (''degree'', JObject [(''type'', JString ''BachelorDegree''),
                                        (''name'', JString ''Bachelor of Science and Arts'')])])]"

definition sortedVCMembers :: "(string \<times> jvalue) list" where
  "sortedVCMembers =
     [(''@context'', JArray [JString ''https://www.w3.org/2018/credentials/v1'',
                             JString ''https://www.w3.org/2018/credentials/examples/v1'']),
      (''credentialSubject'',
         JObject [(''degree'', JObject [(''name'', JString ''Bachelor of Science and Arts''),
                                        (''type'', JString ''BachelorDegree'')]),
                  (''id'', JString ''did:example:ebfeb1f712ebc6f1c276e12ec21'')]),
      (''id'', JString ''http://example.edu/credentials/1872''),
      (''issuanceDate'', JString ''2010-01-01T19:23:24Z''),
      (''issuer'', JString ''did:example:76e12ec712ebc6f1c221ebfeb1f''),
      (''type'', JArray [JString ''VerifiableCredential'',
                         JString ''UniversityDegreeCredential''])]"

definition revisedVCMembers :: "(string \<times> jvalue) list" where
  "revisedVCMembers = exampleVCMembers[4 := (''issuanceDate'', JString ''2011-01-01T19:23:24Z'')]"

definition exampleVCText :: bytes where
  "exampleVCText = render (JObject exampleVCMembers)"

definition sortedVCText :: bytes where
  "sortedVCText = render (JObject sortedVCMembers)"

definition revisedVCText :: bytes where
  "revisedVCText = render (JObject revisedVCMembers)"

definition degreeCredential :: Credential where
  "degreeCredential =
     \<lparr>Context = [''https://www.w3.org/2018/credentials/v1'',
                 ''https://www.w3.org/2018/credentials/examples/v1''],
      Credential_ID = ''http://example.edu/credentials/1872'',
      Types = [''VerifiableCredential'', ''UniversityDegreeCredential''],
      Subject = JObject [(''id'', JString ''did:example:ebfeb1f712ebc6f1c276e12ec21''),
                         (''degree'', JObject [(''type'', JString ''BachelorDegree''),
                            (''name'', JString ''Bachelor of Science and Arts'')])],
      Issuer = \<lparr>ID = ''did:example:76e12ec712ebc6f1c221ebfeb1f'', CustomFields = []\<rparr>,
      Issued = Some ''2010-01-01T19:23:24Z'', Expired = None, Status = None, TermsOfUse = [],
      Evidence = JNull\<rparr>"

definition vcRequest :: StoreVCRequest where
  "vcRequest = \<lparr>StoreVCRequest_Profile = ''profileA'', StoreVCRequest_Credential = exampleVCText\<rparr>"

definition sortedVCRequest :: StoreVCRequest where
  "sortedVCRequest =
     \<lparr>StoreVCRequest_Profile = ''profileA'', StoreVCRequest_Credential = sortedVCText\<rparr>"

definition revisedVCRequest :: StoreVCRequest where
  "revisedVCRequest =
     \<lparr>StoreVCRequest_Profile = ''profileA'', StoreVCRequest_Credential = revisedVCText\<rparr>"

text \<open>
  Histories of the vault in memory: the credential stored once; stored twice; stored, and
  then stored with the later date; stored, and then stored with the keys in sorted order.
\<close>

definition storedVC :: "edvCall list" where
  "storedVC =
     snd (storeVC testImported testOperation (Inr ''0123456789abcdef'') []
            vcRequest degreeCredential)"

definition storedTwice :: "edvCall list" where
  "storedTwice =
     snd (storeVC testImported testOperation (Inr ''fedcba9876543210'') storedVC
            vcRequest degreeCredential)"

definition storedConflict :: "edvCall list" where
  "storedConflict =
     snd (storeVC testImported testOperation (Inr ''fedcba9876543210'') storedVC
            revisedVCRequest (degreeCredential\<lparr>Issued := Some ''2011-01-01T19:23:24Z''\<rparr>))"

definition storedReordered :: "edvCall list" where
  "storedReordered =
     snd (storeVC testImported testOperation (Inr ''fedcba9876543210'') storedVC
            sortedVCRequest degreeCredential)"

text \<open>The credential with its keys in sorted order, stored alone, and its documents.\<close>

definition storedSorted :: "edvCall list" where
  "storedSorted =
     snd (storeVC testImported testOperation (Inr ''0123456789abcdef'') []
            sortedVCRequest degreeCredential)"

definition sortedStructuredDoc :: StructuredDocument where
  "sortedStructuredDoc =
     \<lparr>StructuredDocument_ID = ''0123456789abcdef'', Meta = None,
      Content = Some [(''message'', RawMessage sortedVCText)]\<rparr>"

definition sortedEncryptedDocument :: EncryptedDocument where
  "sortedEncryptedDocument =
     exampleEncryptedDocument
       \<lparr>JWE := documentText ''0123456789abcdef'' (JObject sortedVCMembers)\<rparr>"

text \<open>
  A request to issue a credential that carries a status already: the text of the degree
  credential with a \<^verbatim>\<open>credentialStatus\<close> member and the context of the status list,
  the credential the parser reads from it, and a parser that does so.
\<close>

definition statusVCText :: bytes where
  "statusVCText =
     render (JObject
       ((''@context'', JArray [JString ''https://www.w3.org/2018/credentials/v1'',
                               JString ''https://www.w3.org/2018/credentials/examples/v1'',
                               JString ''https://w3id.org/vc-status-list-2017/v1''])
        # tl exampleVCMembers
        @ [(''credentialStatus'',
              JObject [(''id'', JString ''https://example.com/status/7''),
                       (''type'', JString ''CredentialStatusList2017'')])]))"

definition carriedStatus :: TypedID where
  "carriedStatus =
     \<lparr>TypedID_ID = ''https://example.com/status/7'',
      TypedID_Type = ''CredentialStatusList2017'', TypedID_CustomFields = []\<rparr>"

definition credentialWithStatus :: Credential where
  "credentialWithStatus =
     degreeCredential
       \<lparr>Context := Context degreeCredential @ [''https://w3id.org/vc-status-list-2017/v1''],
        Status := Some carriedStatus\<rparr>"

definition statusImported :: "bytes Imported" where
  "statusImported =
     testImported\<lparr>NewCredential := (\<lambda>b opt.
        if b = statusVCText then Inr credentialWithStatus else NewCredential testImported b opt)\<rparr>"

definition statusIssueRequest :: IssueCredentialRequest where
  "statusIssueRequest = \<lparr>IssueCredentialRequest_Credential = statusVCText, Opts = None\<rparr>"
chapter \<open>Properties\<close>

section \<open>The issuer of an issued credential\<close>

text \<open>
  Claim C6. \<^verbatim>\<open>updateIssuer\<close> replaces the issuer of the credential by the identity of the
  profile exactly when the profile's \<^verbatim>\<open>OverwriteIssuer\<close> flag is set or the credential has
  the empty issuer ID. When it replaces, the new issuer has the profile's DID as its ID and the
  profile's name as its \<^verbatim>\<open>name\<close> custom field; otherwise the credential, its issuer
  included, is unchanged. With the flag set the issuer ID is the profile's DID whatever issuer
  the credential had. No field other than the issuer is ever changed.
\<close>

theorem updateIssuer_exactly_when:
  "(OverwriteIssuer profile \<or> ID (Issuer credential) = [] \<longrightarrow>
      Issuer (updateIssuer credential profile) =
        \<lparr>ID = DID profile, CustomFields = [(''name'', JString (Name profile))]\<rparr>)
   \<and> (\<not> (OverwriteIssuer profile \<or> ID (Issuer credential) = []) \<longrightarrow>
        updateIssuer credential profile = credential)
   \<and> (OverwriteIssuer profile \<longrightarrow> ID (Issuer (updateIssuer credential profile)) = DID profile)
   \<and> updateIssuer credential profile =
        credential\<lparr>Issuer := Issuer (updateIssuer credential profile)\<rparr>"
  by (simp add: updateIssuer_def)

text \<open>
  A profile that overwrites: the issuer \<^verbatim>\<open>did:example:other\<close> of the request becomes the
  profile's DID. The same profile without the flag: the credential is returned as it was.
\<close>

theorem updateIssuer_exactly_when_witness:
  "OverwriteIssuer exampleProfile
   \<and> ID (Issuer exampleCredential) \<noteq> DID exampleProfile
   \<and> ID (Issuer (updateIssuer exampleCredential exampleProfile)) = DID exampleProfile
   \<and> \<not> (OverwriteIssuer (exampleProfile\<lparr>OverwriteIssuer := False\<rparr>)
          \<or> ID (Issuer exampleCredential) = [])
   \<and> updateIssuer exampleCredential (exampleProfile\<lparr>OverwriteIssuer := False\<rparr>)
       = exampleCredential"
  using updateIssuer_exactly_when [of exampleProfile exampleCredential]
    updateIssuer_exactly_when [of "exampleProfile\<lparr>OverwriteIssuer := False\<rparr>" exampleCredential]
  by (simp add: exampleProfile_def exampleCredential_def)

section \<open>The type assertion of the status update\<close>

lemma updateCredentialStatusHandler_panics_iff:
  assumes "body = Inr data"
    and "parseAndVerifyVC I (UpdateCredentialStatusRequest_Credential data) = Inr vc"
  shows "(\<exists>p. fst (updateCredentialStatusHandler I op s body) = Panic p)
         \<longleftrightarrow> \<not> (\<exists>name. map_of (CustomFields (Issuer vc)) ''name'' = Some (JString name))"
proof (cases "map_of (CustomFields (Issuer vc)) ''name''")
  case None
  with assms show ?thesis by (simp add: updateCredentialStatusHandler_def)
next
  case (Some v)
  with assms show ?thesis
    by (cases v)
      (simp_all add: updateCredentialStatusHandler_def
         split: sum.splits prod.splits option.splits)
qed

text \<open>
  Claim C10. For a request that decodes and whose credential parses,
  \<^verbatim>\<open>updateCredentialStatusHandler\<close> panics in the type assertion
  \<^verbatim>\<open>vc.Issuer.CustomFields["name"].(string)\<close> exactly when the issuer of the credential
  has no \<^verbatim>\<open>name\<close> custom field that is a string. \<^verbatim>\<open>updateIssuer\<close> establishes such a
  field (the profile's name) whenever it rewrites the issuer. Not every credential has one.
\<close>

theorem name_assertion_valid_exactly_for_string_name:
  "(body = Inr data \<and> parseAndVerifyVC I (UpdateCredentialStatusRequest_Credential data) = Inr vc
      \<longrightarrow> ((\<exists>p. fst (updateCredentialStatusHandler I op s body) = Panic p)
            \<longleftrightarrow> \<not> (\<exists>name. map_of (CustomFields (Issuer vc)) ''name'' = Some (JString name))))
   \<and> (OverwriteIssuer profile \<or> ID (Issuer credential) = [] \<longrightarrow>
        map_of (CustomFields (Issuer (updateIssuer credential profile))) ''name''
          = Some (JString (Name profile)))
   \<and> (\<exists>c::Credential.
         \<not> (\<exists>name. map_of (CustomFields (Issuer c)) ''name'' = Some (JString name)))"
proof (intro conjI impI)
  assume a: "body = Inr data
    \<and> parseAndVerifyVC I (UpdateCredentialStatusRequest_Credential data) = Inr vc"
  show "(\<exists>p. fst (updateCredentialStatusHandler I op s body) = Panic p)
            \<longleftrightarrow> \<not> (\<exists>name. map_of (CustomFields (Issuer vc)) ''name'' = Some (JString name))"
    by (rule updateCredentialStatusHandler_panics_iff [OF conjunct1 [OF a] conjunct2 [OF a]])
next
  assume "OverwriteIssuer profile \<or> ID (Issuer credential) = []"
  then show "map_of (CustomFields (Issuer (updateIssuer credential profile))) ''name''
          = Some (JString (Name profile))"
    by (simp add: updateIssuer_def)
next
  have "\<not> (\<exists>name. map_of (CustomFields (Issuer exampleCredential)) ''name'' = Some (JString name))"
    by (simp add: exampleCredential_def)
  then show "\<exists>c::Credential.
         \<not> (\<exists>name. map_of (CustomFields (Issuer c)) ''name'' = Some (JString name))"
    by blast
qed

text \<open>
  A submitted credential whose issuer has no custom field: the handler panics. The same
  credential after \<^verbatim>\<open>updateIssuer\<close> under an overwriting profile carries the name.
\<close>

theorem name_assertion_witness:
  "parseAndVerifyVC testImported (UpdateCredentialStatusRequest_Credential exampleStatusRequest)
     = Inr exampleCredential
   \<and> fst (updateCredentialStatusHandler testImported testOperation testAllocator
            (Inr exampleStatusRequest))
       = Panic ''interface conversion: interface {} is not string''
   \<and> OverwriteIssuer exampleProfile
   \<and> map_of (CustomFields (Issuer (updateIssuer exampleCredential exampleProfile))) ''name''
       = Some (JString ''profileA'')"
  using name_assertion_valid_exactly_for_string_name
    [of "Inr exampleStatusRequest" exampleStatusRequest testImported exampleCredential
        testOperation testAllocator exampleProfile exampleCredential]
  by (simp add: parseAndVerifyVC_def testImported_def exampleStatusRequest_def
      exampleCredential_def exampleProfile_def updateCredentialStatusHandler_def updateIssuer_def)

section \<open>The blind index\<close>

text \<open>
  Claim C4. The index value that \<^verbatim>\<open>buildEncryptedDoc\<close> stores for a credential ID is the
  value that \<^verbatim>\<open>queryVault\<close> asks the vault for: when the document is built, it carries one
  indexed attribute, named by \<^verbatim>\<open>vcIDIndexNameEncoded\<close>, and the query for the same ID is
  the query for that attribute's name and value. The MAC is a function of the ID and the key
  handle, so when it fails, it fails at both times: no query is sent and no document is built.
\<close>

theorem blind_index_same_at_store_and_query:
  "(buildEncryptedDoc I op structuredDoc vcID = Inr encryptedDocument \<longrightarrow>
      (\<exists>a. map IndexedAttributes (IndexedAttributeCollections encryptedDocument) = [[a]]
          \<and> IndexedAttribute_Name a = vcIDIndexNameEncoded op
          \<and> queryVault I op h vaultID vcID =
              callQueryVault (edvClient op) vaultID
                \<lparr>Query_Name = IndexedAttribute_Name a,
                 Query_Value = IndexedAttribute_Value a\<rparr> h))
   \<and> (macCrypto op vcID (macKeyHandle op) = Inl err \<longrightarrow>
        queryVault I op h vaultID vcID = (Inl err, h)
        \<and> (\<exists>err'. buildEncryptedDoc I op structuredDoc vcID = Inl err'))"
  by (auto simp: buildEncryptedDoc_def queryVault_def Let_def split: sum.splits)

text \<open>The document built for the ID \<^verbatim>\<open>http://example.edu/credentials/1872\<close> and the query sent for it.\<close>

lemma buildEncryptedDoc_example:
  "buildEncryptedDoc testImported testOperation exampleStructuredDoc ''http://example.edu/credentials/1872''
     = Inr exampleEncryptedDocument"
  by code_simp

theorem blind_index_witness:
  "buildEncryptedDoc testImported testOperation exampleStructuredDoc ''http://example.edu/credentials/1872''
     = Inr exampleEncryptedDocument
   \<and> snd (queryVault testImported testOperation [] ''profileA'' ''http://example.edu/credentials/1872'')
     = [QueryVaultCall ''profileA''
          \<lparr>Query_Name = ''vc-id-index'', Query_Value = ''mac-keyhttp://example.edu/credentials/1872''\<rparr>]"
  using blind_index_same_at_store_and_query
    [of testImported testOperation exampleStructuredDoc "''http://example.edu/credentials/1872''" exampleEncryptedDocument
        "[]" "''profileA''" "''none''"]
    buildEncryptedDoc_example
  by (simp add: exampleEncryptedDocument_def testOperation_def callQueryVault_def)

section \<open>Reconciling duplicate documents\<close>

lemma retrieveVCs_length:
  "retrieveVCs I op h profileName docURLs acc = (Inr vcs, h')
     \<Longrightarrow> length vcs = length acc + length docURLs"
proof (induction docURLs arbitrary: h acc)
  case Nil
  then show ?case by simp
next
  case (Cons docURL docURLs)
  then show ?case
    by (auto simp: Let_def split: prod.splits sum.splits)
qed

lemma differsFrom_iff:
  "differsFrom vcs i \<longleftrightarrow> (\<exists>j. i \<le> j \<and> j < length vcs \<and> vcs ! 0 \<noteq> vcs ! j)"
proof (induction vcs i rule: differsFrom.induct)
  case (1 vcs i)
  show ?case
  proof (cases "i < length vcs")
    case False
    then show ?thesis by (subst differsFrom.simps) auto
  next
    case True
    show ?thesis
    proof (cases "vcs ! 0 \<noteq> vcs ! i")
      case True
      with \<open>i < length vcs\<close> show ?thesis by (subst differsFrom.simps) auto
    next
      case False
      with \<open>i < length vcs\<close> "1.IH" have "differsFrom vcs i \<longleftrightarrow>
          (\<exists>j. Suc i \<le> j \<and> j < length vcs \<and> vcs ! 0 \<noteq> vcs ! j)"
        by (subst differsFrom.simps) simp
      also have "\<dots> \<longleftrightarrow> (\<exists>j. i \<le> j \<and> j < length vcs \<and> vcs ! 0 \<noteq> vcs ! j)"
        using False by (metis Suc_leD Suc_leI le_neq_implies_less)
      finally show ?thesis .
    qed
  qed
qed

lemma differsFrom_1_iff:
  "differsFrom vcs (Suc 0) \<longleftrightarrow> (\<exists>p \<in> set vcs. \<exists>q \<in> set vcs. p \<noteq> q)"
proof
  assume "differsFrom vcs (Suc 0)"
  then obtain j where "j < length vcs" "vcs ! 0 \<noteq> vcs ! j"
    by (auto simp: differsFrom_iff)
  then show "\<exists>p \<in> set vcs. \<exists>q \<in> set vcs. p \<noteq> q"
    by (metis length_greater_0_conv list.size(3) not_less_zero nth_mem)
next
  assume "\<exists>p \<in> set vcs. \<exists>q \<in> set vcs. p \<noteq> q"
  then obtain p q where pq: "p \<in> set vcs" "q \<in> set vcs" "p \<noteq> q" by blast
  then obtain r where r: "r \<in> set vcs" "r \<noteq> vcs ! 0" by metis
  then obtain j where j: "j < length vcs" "vcs ! j = r" by (auto simp: in_set_conv_nth)
  with r have "j \<noteq> 0" by (cases "j = 0") auto
  with j r show "differsFrom vcs (Suc 0)"
    by (auto simp: differsFrom_iff intro!: exI [of _ j])
qed

lemma verifyMultiple_error_status:
  "verifyMultipleMatchingVCsAreIdentical I op h profileName docURLs = (Done (sc, Inl e), h')
     \<Longrightarrow> sc = StatusInternalServerError \<or> sc = StatusConflict"
  by (auto simp: verifyMultipleMatchingVCsAreIdentical_def split: prod.splits sum.splits
      if_splits list.splits)

lemma compared_payloads:
  assumes "retrieveVCs I op h profileName docURLs [] = (Inr payloads, h')"
    and "2 \<le> length docURLs"
  shows "((\<forall>p \<in> set payloads. \<forall>q \<in> set payloads. p = q) \<longrightarrow>
            verifyMultipleMatchingVCsAreIdentical I op h profileName docURLs
              = (Done (StatusOK, Inr (payloads ! 0)), h')
          \<and> retrieveCredential I op h profileName docURLs = (Done [Write (payloads ! 0)], h'))
       \<and> ((\<exists>p \<in> set payloads. \<exists>q \<in> set payloads. p \<noteq> q) \<longrightarrow>
            verifyMultipleMatchingVCsAreIdentical I op h profileName docURLs
              = (Done (StatusConflict, Inl errMultipleInconsistentVCsFoundForOneID), h')
          \<and> retrieveCredential I op h profileName docURLs
              = (Done [WriteErrorResponse StatusConflict errMultipleInconsistentVCsFoundForOneID],
                 h'))"
proof -
  from assms have len: "length payloads = length docURLs"
    using retrieveVCs_length by fastforce
  with assms(2) obtain first rest where payloads: "payloads = first # rest"
    by (cases payloads) auto
  from assms(2) obtain u1 u2 us where urls: "docURLs = u1 # u2 # us"
    by (cases docURLs; cases "tl docURLs") auto
  have same: "\<not> differsFrom payloads 1 \<Longrightarrow>
      verifyMultipleMatchingVCsAreIdentical I op h profileName docURLs
        = (Done (StatusOK, Inr (payloads ! 0)), h')"
    using assms(1) payloads by (simp add: verifyMultipleMatchingVCsAreIdentical_def)
  have differ: "differsFrom payloads 1 \<Longrightarrow>
      verifyMultipleMatchingVCsAreIdentical I op h profileName docURLs
        = (Done (StatusConflict, Inl errMultipleInconsistentVCsFoundForOneID), h')"
    using assms(1) by (simp add: verifyMultipleMatchingVCsAreIdentical_def)
  have rc: "retrieveCredential I op h profileName docURLs =
      (case verifyMultipleMatchingVCsAreIdentical I op h profileName docURLs of
         (Panic p, h') \<Rightarrow> (Panic p, h')
       | (Done (statusCode, Inl err), h') \<Rightarrow> (Done [WriteErrorResponse statusCode err], h')
       | (Done (statusCode, Inr retrievedVC), h') \<Rightarrow> (Done [Write retrievedVC], h'))"
    unfolding urls by (simp add: retrieveCredential_def split: prod.splits)
  show ?thesis
  proof (intro conjI impI)
    assume "\<forall>p \<in> set payloads. \<forall>q \<in> set payloads. p = q"
    then have "\<not> differsFrom payloads 1" by (simp add: differsFrom_1_iff)
    then show "verifyMultipleMatchingVCsAreIdentical I op h profileName docURLs
              = (Done (StatusOK, Inr (payloads ! 0)), h')" by (rule same)
    then show "retrieveCredential I op h profileName docURLs = (Done [Write (payloads ! 0)], h')"
      by (simp add: rc)
  next
    assume "\<exists>p \<in> set payloads. \<exists>q \<in> set payloads. p \<noteq> q"
    then have "differsFrom payloads 1" by (simp add: differsFrom_1_iff)
    then show "verifyMultipleMatchingVCsAreIdentical I op h profileName docURLs
              = (Done (StatusConflict, Inl errMultipleInconsistentVCsFoundForOneID), h')"
      by (rule differ)
    then show "retrieveCredential I op h profileName docURLs
              = (Done [WriteErrorResponse StatusConflict errMultipleInconsistentVCsFoundForOneID],
                 h')"
      by (simp add: rc)
  qed
qed

lemma retrieveVC_history:
  "snd (retrieveVC I op h profileName docID contextErrText)
     = h @ [ReadDocumentCall profileName docID]"
  by (simp add: retrieveVC_def callReadDocument_def split: sum.splits)

lemma payloadOf_0:
  "payloadOf I op h profileName (docURL # docURLs) 0
     = fst (retrieveVC I op h profileName (getDocIDFromURL docURL)
              (''determining if the multiple VCs '' @ ''matching the given ID are the same''))"
  by (simp add: payloadOf_def reads_def)

lemma payloadOf_Suc:
  "payloadOf I op h profileName (docURL # docURLs) (Suc i)
     = payloadOf I op (h @ [ReadDocumentCall profileName (getDocIDFromURL docURL)]) profileName
         docURLs i"
  by (simp add: payloadOf_def reads_def)

lemma retrieveVCs_payloads:
  assumes "length payloads = length docURLs"
    and "\<forall>i < length docURLs. payloadOf I op h profileName docURLs i = Inr (payloads ! i)"
  shows "retrieveVCs I op h profileName docURLs acc
           = (Inr (acc @ payloads), h @ reads profileName docURLs)"
  using assms
proof (induction docURLs arbitrary: h acc payloads)
  case Nil
  then show ?case by (simp add: reads_def)
next
  case (Cons docURL docURLs)
  from Cons.prems(1) obtain p ps where ps: "payloads = p # ps" "length ps = length docURLs"
    by (cases payloads) auto
  let ?h = "h @ [ReadDocumentCall profileName (getDocIDFromURL docURL)]"
  from Cons.prems(2) have "payloadOf I op h profileName (docURL # docURLs) 0 = Inr (payloads ! 0)"
    by simp
  then have first: "fst (retrieveVC I op h profileName (getDocIDFromURL docURL)
              (''determining if the multiple VCs '' @ ''matching the given ID are the same''))
            = Inr p"
    by (simp add: payloadOf_0 ps)
  have rest: "\<forall>i < length docURLs. payloadOf I op ?h profileName docURLs i = Inr (ps ! i)"
  proof (intro allI impI)
    fix i assume "i < length docURLs"
    then have "payloadOf I op h profileName (docURL # docURLs) (Suc i) = Inr (payloads ! Suc i)"
      using Cons.prems(2) by simp
    then show "payloadOf I op ?h profileName docURLs i = Inr (ps ! i)"
      by (simp add: payloadOf_Suc ps)
  qed
  have "retrieveVCs I op ?h profileName docURLs (acc @ [p])
          = (Inr ((acc @ [p]) @ ps), ?h @ reads profileName docURLs)"
    by (rule Cons.IH [OF ps(2) rest])
  moreover have "retrieveVC I op h profileName (getDocIDFromURL docURL)
              (''determining if the multiple VCs '' @ ''matching the given ID are the same'')
            = (Inr p, ?h)"
    using first retrieveVC_history [of I op h profileName "getDocIDFromURL docURL"]
    by (simp add: prod_eq_iff)
  ultimately show ?case by (simp add: ps reads_def)
qed

text \<open>
  Claim C1, as amended. A retrieval finds two or more documents for one credential ID. The
  documents are read one after the other, and the payload of each is what \<^verbatim>\<open>retrieveVC\<close>
  returns for it: the \<^verbatim>\<open>message\<close> field of the decrypted document, marshalled again.
  Suppose every document has a payload. If the payloads are all identical,
  \<^verbatim>\<open>verifyMultipleMatchingVCsAreIdentical\<close> returns the first one with no error, and
  \<^verbatim>\<open>retrieveCredential\<close> writes it. If two of them differ, the function returns
  \<^verbatim>\<open>errMultipleInconsistentVCsFoundForOneID\<close> with the status of a conflict, and the
  handler writes that error response and no payload. Every document has been read. The
  comparison is of the payloads marshalled again, not of the decrypted bytes.
\<close>

theorem duplicates_reconciled:
  assumes "2 \<le> length docURLs"
    and "length payloads = length docURLs"
    and "\<forall>i < length docURLs. payloadOf I op h profileName docURLs i = Inr (payloads ! i)"
  shows "((\<forall>p \<in> set payloads. \<forall>q \<in> set payloads. p = q) \<longrightarrow>
            verifyMultipleMatchingVCsAreIdentical I op h profileName docURLs
              = (Done (StatusOK, Inr (payloads ! 0)), h @ reads profileName docURLs)
          \<and> retrieveCredential I op h profileName docURLs
              = (Done [Write (payloads ! 0)], h @ reads profileName docURLs))
       \<and> ((\<exists>p \<in> set payloads. \<exists>q \<in> set payloads. p \<noteq> q) \<longrightarrow>
            verifyMultipleMatchingVCsAreIdentical I op h profileName docURLs
              = (Done (StatusConflict, Inl errMultipleInconsistentVCsFoundForOneID),
                 h @ reads profileName docURLs)
          \<and> retrieveCredential I op h profileName docURLs
              = (Done [WriteErrorResponse StatusConflict errMultipleInconsistentVCsFoundForOneID],
                 h @ reads profileName docURLs))"
proof -
  have "retrieveVCs I op h profileName docURLs []
          = (Inr ([] @ payloads), h @ reads profileName docURLs)"
    by (rule retrieveVCs_payloads [OF assms(2) assms(3)])
  then have "retrieveVCs I op h profileName docURLs []
          = (Inr payloads, h @ reads profileName docURLs)"
    by simp
  then show ?thesis using assms(1) by (rule compared_payloads)
qed

lemma storedTwice_payloads:
  "payloadOf testImported testOperation storedTwice ''profileA'' exampleURLs 0 = Inr sortedVCText"
  "payloadOf testImported testOperation storedTwice ''profileA'' exampleURLs (Suc 0)
     = Inr sortedVCText"
  by code_simp+

lemma storedConflict_payloads:
  "payloadOf testImported testOperation storedConflict ''profileA'' exampleURLs 0
     = Inr sortedVCText"
  "payloadOf testImported testOperation storedConflict ''profileA'' exampleURLs (Suc 0)
     = Inr (render (sortKeys (JObject revisedVCMembers)))"
  by code_simp+

lemma payloads_differ: "sortedVCText \<noteq> render (sortKeys (JObject revisedVCMembers))"
  by code_simp

text \<open>
  The credential stored twice is reconciled to its payload; the credential stored with two
  dates of issuance gives the conflict and no payload.
\<close>

theorem duplicates_reconciled_witness:
  "payloadOf testImported testOperation storedTwice ''profileA'' exampleURLs 0 = Inr sortedVCText
   \<and> payloadOf testImported testOperation storedTwice ''profileA'' exampleURLs 1
       = Inr sortedVCText
   \<and> fst (retrieveCredential testImported testOperation storedTwice ''profileA'' exampleURLs)
       = Done [Write sortedVCText]
   \<and> payloadOf testImported testOperation storedConflict ''profileA'' exampleURLs 0
       = Inr sortedVCText
   \<and> payloadOf testImported testOperation storedConflict ''profileA'' exampleURLs 1
       = Inr (render (sortKeys (JObject revisedVCMembers)))
   \<and> sortedVCText \<noteq> render (sortKeys (JObject revisedVCMembers))
   \<and> fst (retrieveCredential testImported testOperation storedConflict ''profileA'' exampleURLs)
       = Done [WriteErrorResponse StatusConflict errMultipleInconsistentVCsFoundForOneID]"
proof -
  let ?same = "[sortedVCText, sortedVCText]"
  let ?diff = "[sortedVCText, render (sortKeys (JObject revisedVCMembers))]"
  have len: "2 \<le> length exampleURLs" by (simp add: exampleURLs_def)
  have l1: "length ?same = length exampleURLs" and l2: "length ?diff = length exampleURLs"
    by (simp_all add: exampleURLs_def)
  have two: "i < length exampleURLs \<longleftrightarrow> i = 0 \<or> i = Suc 0" for i
    by (auto simp: exampleURLs_def)
  have p1: "\<forall>i < length exampleURLs.
      payloadOf testImported testOperation storedTwice ''profileA'' exampleURLs i
        = Inr (?same ! i)"
    using storedTwice_payloads by (auto simp: two)
  have p2: "\<forall>i < length exampleURLs.
      payloadOf testImported testOperation storedConflict ''profileA'' exampleURLs i
        = Inr (?diff ! i)"
    using storedConflict_payloads by (auto simp: two)
  have same: "\<forall>p \<in> set ?same. \<forall>q \<in> set ?same. p = q" by simp
  have differ: "\<exists>p \<in> set ?diff. \<exists>q \<in> set ?diff. p \<noteq> q"
    using payloads_differ by auto
  from mp [OF conjunct1 [OF duplicates_reconciled [OF len l1 p1]] same]
  have w1: "fst (retrieveCredential testImported testOperation storedTwice ''profileA''
                  exampleURLs) = Done [Write sortedVCText]"
    by simp
  from mp [OF conjunct2 [OF duplicates_reconciled [OF len l2 p2]] differ]
  have w2: "fst (retrieveCredential testImported testOperation storedConflict ''profileA''
                  exampleURLs)
              = Done [WriteErrorResponse StatusConflict errMultipleInconsistentVCsFoundForOneID]"
    by simp
  from storedTwice_payloads storedConflict_payloads payloads_differ w1 w2
  show ?thesis by simp
qed

text \<open>
  The claim as stated fails for two documents of one credential whose payloads have the
  same members in different orders of the keys. The plaintexts of the two documents hold
  different payloads, byte for byte, and the retrieval answers with a payload and no
  conflict: each payload is marshalled again before the comparison, which sorts the keys.
\<close>

theorem duplicates_reconciled_counterexample:
  "decryptedDocument testImported testOperation storedReordered ''profileA'' ''0123456789abcdef''
     = Inr (documentText ''0123456789abcdef'' (JObject exampleVCMembers))
   \<and> decryptedDocument testImported testOperation storedReordered ''profileA''
       ''fedcba9876543210''
     = Inr (documentText ''fedcba9876543210'' (JObject sortedVCMembers))
   \<and> render (JObject exampleVCMembers) \<noteq> render (JObject sortedVCMembers)
   \<and> fst (queryVault testImported testOperation storedReordered ''profileA''
            ''http://example.edu/credentials/1872'') = Inr exampleURLs
   \<and> fst (retrieveCredentialHandler testImported testOperation storedReordered
            ''http://example.edu/credentials/1872'' ''profileA'')
     = Done [Write (render (JObject sortedVCMembers))]"
  by code_simp
section \<open>Retrieving a credential that is not there\<close>

lemma retrieveCredential_not_found_only_if_empty:
  assumes "fst (retrieveCredential I op h profile docURLs)
             = Done (WriteErrorResponse StatusBadRequest msg # evs)"
  shows "docURLs = []"
proof (cases docURLs)
  case Nil
  then show ?thesis .
next
  case (Cons u us)
  show ?thesis
  proof (cases us)
    case Nil
    with Cons assms show ?thesis
      by (auto simp: retrieveCredential_def Let_def StatusBadRequest_def
          StatusInternalServerError_def split: prod.splits sum.splits)
  next
    case (Cons u2 us2)
    obtain r h' where v: "verifyMultipleMatchingVCsAreIdentical I op h profile docURLs = (r, h')"
      by (cases "verifyMultipleMatchingVCsAreIdentical I op h profile docURLs")
    show ?thesis
    proof (cases r)
      case (Panic p)
      with v assms \<open>docURLs = u # us\<close> \<open>us = u2 # us2\<close> show ?thesis
        by (simp add: retrieveCredential_def)
    next
      case (Done d)
      obtain sc res where d: "d = (sc, res)" by (cases d)
      show ?thesis
      proof (cases res)
        case (Inl e)
        with v Done d have "sc = StatusInternalServerError \<or> sc = StatusConflict"
          using verifyMultiple_error_status by blast
        with v Done d Inl assms \<open>docURLs = u # us\<close> \<open>us = u2 # us2\<close> show ?thesis
          by (auto simp: retrieveCredential_def StatusBadRequest_def
              StatusInternalServerError_def StatusConflict_def)
      next
        case (Inr vc)
        with v Done d assms \<open>docURLs = u # us\<close> \<open>us = u2 # us2\<close> show ?thesis
          by (simp add: retrieveCredential_def)
      qed
    qed
  qed
qed

text \<open>
  Claim C3. When the query returns no document location, \<^verbatim>\<open>retrieveCredential\<close> writes
  the error response that says that no credential was found under the profile (and, since that
  case does not return, an empty payload after it). The response is distinct from every other
  response of the retrieval: \<^verbatim>\<open>retrieveCredentialHandler\<close> starts its response with it if
  and only if the request is valid and the query returned no location. Its status is
  \<^verbatim>\<open>StatusBadRequest\<close>, which invalid requests share; the message sets it apart.
\<close>

theorem no_document_is_not_found:
  "retrieveCredential I op h profile []
     = (Done [WriteErrorResponse StatusBadRequest
                (''no VC under profile '' @ [CHR 0x22] @ profile @ [CHR 0x22] @
                 '' was found with the given id''),
              Write []], h)
   \<and> ((\<exists>evs. fst (retrieveCredentialHandler I op h id' profile)
              = Done (WriteErrorResponse StatusBadRequest
                        (''no VC under profile '' @ [CHR 0x22] @ profile @ [CHR 0x22] @
                         '' was found with the given id'') # evs))
        \<longleftrightarrow> validateRequest profile id' = None
            \<and> fst (queryVault I op h profile id') = Inr [])"
proof -
  let ?msg = "''no VC under profile '' @ [CHR 0x22] @ profile @ [CHR 0x22] @
                 '' was found with the given id''"
  have empty: "retrieveCredential I op h profile []
     = (Done [WriteErrorResponse StatusBadRequest ?msg, Write []], h)"
    by (simp add: retrieveCredential_def)
  have only: "validateRequest profile id' = None
            \<and> fst (queryVault I op h profile id') = Inr []"
    if evs: "fst (retrieveCredentialHandler I op h id' profile)
              = Done (WriteErrorResponse StatusBadRequest ?msg # evs)" for evs
  proof -
    have valid: "validateRequest profile id' = None"
    proof (rule ccontr)
      assume "validateRequest profile id' \<noteq> None"
      then obtain err where err: "validateRequest profile id' = Some err" by auto
      then have "err = ''missing profile name'' \<or> err = ''missing verifiable credential ID''"
        by (auto simp: validateRequest_def split: if_splits)
      with err evs show False
        by (auto simp: retrieveCredentialHandler_def)
    qed
    obtain r h1 where q: "queryVault I op h profile id' = (r, h1)"
      by (cases "queryVault I op h profile id'")
    have "r = Inr []"
    proof (cases r)
      case (Inl e)
      with q valid evs show ?thesis
        by (simp add: retrieveCredentialHandler_def StatusBadRequest_def
            StatusInternalServerError_def)
    next
      case (Inr docURLs)
      with q valid evs have "fst (retrieveCredential I op h1 profile docURLs)
         = Done (WriteErrorResponse StatusBadRequest ?msg # evs)"
        by (simp add: retrieveCredentialHandler_def)
      then have "docURLs = []" by (rule retrieveCredential_not_found_only_if_empty)
      with Inr show ?thesis by simp
    qed
    with q valid show ?thesis by simp
  qed
  have "if": "\<exists>evs. fst (retrieveCredentialHandler I op h id' profile)
              = Done (WriteErrorResponse StatusBadRequest ?msg # evs)"
    if "validateRequest profile id' = None \<and> fst (queryVault I op h profile id') = Inr []"
    using that
    by (cases "queryVault I op h profile id'")
      (simp add: retrieveCredentialHandler_def retrieveCredential_def)
  from empty only "if" show ?thesis by blast
qed

text \<open>
  A vault that holds one credential is asked for another ID: the query finds nothing and the
  handler answers with the response of the first conjunct.
\<close>

theorem no_document_is_not_found_witness:
  "validateRequest ''profileA'' ''http://example.edu/credentials/3732'' = None
   \<and> fst (queryVault testImported testOperation storedOnce ''profileA'' ''http://example.edu/credentials/3732'') = Inr []
   \<and> fst (retrieveCredentialHandler testImported testOperation storedOnce ''http://example.edu/credentials/3732'' ''profileA'')
     = Done [WriteErrorResponse StatusBadRequest
               (''no VC under profile '' @ [CHR 0x22] @ ''profileA'' @ [CHR 0x22] @
                '' was found with the given id''),
             Write []]"
proof -
  have v: "validateRequest ''profileA'' ''http://example.edu/credentials/3732'' = None" by (simp add: validateRequest_def)
  have q: "fst (queryVault testImported testOperation storedOnce ''profileA'' ''http://example.edu/credentials/3732'') = Inr []"
    by code_simp
  have r: "fst (retrieveCredentialHandler testImported testOperation storedOnce ''http://example.edu/credentials/3732''
                  ''profileA'')
     = Done [WriteErrorResponse StatusBadRequest
               (''no VC under profile '' @ [CHR 0x22] @ ''profileA'' @ [CHR 0x22] @
                '' was found with the given id''),
             Write []]"
    by code_simp
  from no_document_is_not_found [of testImported testOperation storedOnce "''profileA''" "''http://example.edu/credentials/3732''"]
    v q r show ?thesis by simp
qed

section \<open>Lazy vault creation\<close>

text \<open>
  Claim C5, as amended. \<^verbatim>\<open>storeVC\<close> writes the document once. If and only if that write
  fails with an error whose text contains the text of the vault-not-found error, it asks the
  vault client to create the vault; if and only if that creation succeeds, it writes the
  document a second time, and never a third. An error of the first write that is not the
  vault-not-found error, an error of the vault creation and an error of the second write are
  each written to the response with \<^verbatim>\<open>StatusInternalServerError\<close>, and nothing is tried
  after them. The theorem gives, for every vault client, the response and the calls that
  \<^verbatim>\<open>storeVC\<close> adds to the history.
\<close>

theorem storeVC_lazy_vault_creation:
  assumes "buildStructuredDoc I rnd data = Inr doc"
    and "buildEncryptedDoc I op doc (Credential_ID vc) = Inr enc"
  shows "storeVC I op rnd h data vc =
     (let p = StoreVCRequest_Profile data;
          write = CreateDocumentCall p enc;
          create = CreateDataVaultCall \<lparr>ReferenceID = p\<rparr>
      in case CreateDocument (edvClient op) h p enc of
           Inr _ \<Rightarrow> ([], h @ [write])
         | Inl err \<Rightarrow>
             if \<not> Contains err (ErrVaultNotFound I)
             then ([WriteErrorResponse StatusInternalServerError err], h @ [write])
             else (case CreateDataVault (edvClient op) (h @ [write]) \<lparr>ReferenceID = p\<rparr> of
                     Inl err2 \<Rightarrow>
                       ([WriteErrorResponse StatusInternalServerError err2], h @ [write, create])
                   | Inr _ \<Rightarrow>
                       (case CreateDocument (edvClient op) (h @ [write, create]) p enc of
                          Inl err3 \<Rightarrow>
                            ([WriteErrorResponse StatusInternalServerError err3],
                             h @ [write, create, write])
                        | Inr _ \<Rightarrow> ([], h @ [write, create, write]))))"
  using assms
  by (simp add: storeVC_def callCreateDocument_def callCreateDataVault_def Let_def
      split: sum.splits)

text \<open>
  The vault in memory has no vault of the profile at first: the write fails, the vault is
  created, the second write succeeds.
\<close>

lemma buildStructuredDoc_example:
  "buildStructuredDoc testImported (Inr ''0123456789abcdef'') exampleRequest
     = Inr exampleStructuredDoc"
  by (simp add: buildStructuredDoc_def generateEDVCompatibleID_def testImported_def
      exampleRequest_def exampleStructuredDoc_def)

theorem storeVC_lazy_vault_creation_witness:
  "buildStructuredDoc testImported (Inr ''0123456789abcdef'') exampleRequest
     = Inr exampleStructuredDoc
   \<and> buildEncryptedDoc testImported testOperation exampleStructuredDoc
       (Credential_ID exampleCredential) = Inr exampleEncryptedDocument
   \<and> storeVC testImported testOperation (Inr ''0123456789abcdef'') [] exampleRequest
       exampleCredential
     = ([], [CreateDocumentCall ''profileA'' exampleEncryptedDocument,
             CreateDataVaultCall \<lparr>ReferenceID = ''profileA''\<rparr>,
             CreateDocumentCall ''profileA'' exampleEncryptedDocument])"
proof -
  have id: "Credential_ID exampleCredential = ''http://example.edu/credentials/1872''" by (simp add: exampleCredential_def)
  have enc: "buildEncryptedDoc testImported testOperation exampleStructuredDoc
       (Credential_ID exampleCredential) = Inr exampleEncryptedDocument"
    unfolding id by (rule buildEncryptedDoc_example)
  show ?thesis
    using storeVC_lazy_vault_creation [OF buildStructuredDoc_example enc, of "[]"]
      buildStructuredDoc_example enc
    by (simp add: testOperation_def memoryVault_def vaultState_def testImported_def
        exampleRequest_def Let_def)
qed

text \<open>
  The claim as stated fails where the vault cannot be created: the first write fails with the
  vault-not-found error, and the write is not attempted again.
\<close>

theorem vault_creation_failure_counterexample:
  "CreateDocument refusingVault [] ''profileA'' exampleEncryptedDocument
     = Inl (ErrVaultNotFound testImported)
   \<and> storeVC testImported (testOperation\<lparr>edvClient := refusingVault\<rparr>)
       (Inr ''0123456789abcdef'') [] exampleRequest exampleCredential
     = ([WriteErrorResponse StatusInternalServerError ''vault creation refused''],
        [CreateDocumentCall ''profileA'' exampleEncryptedDocument,
         CreateDataVaultCall \<lparr>ReferenceID = ''profileA''\<rparr>])"
  by code_simp

section \<open>Allocating status slots\<close>

lemma allocations_within:
  "fillCount a + n \<le> capacity a \<Longrightarrow>
     allocations n a =
       (map (\<lambda>i. \<lparr>shard = (url a, current a), slotIndex = i\<rparr>) [fillCount a..<fillCount a + n],
        a\<lparr>fillCount := fillCount a + n\<rparr>)"
proof (induction n arbitrary: a)
  case 0
  then show ?case by simp
next
  case (Suc n)
  then have free: "fillCount a < capacity a" by simp
  let ?a' = "a\<lparr>fillCount := fillCount a + 1\<rparr>"
  from Suc.prems have "fillCount ?a' + n \<le> capacity ?a'" by simp
  from Suc.IH [OF this] free show ?case
    by (simp add: Allocate_def upt_conv_Cons)
qed

lemma allocations_add:
  "allocations (m + n) a =
     (let (slots1, a1) = allocations m a; (slots2, a2) = allocations n a1
      in (slots1 @ slots2, a2))"
  by (induction m arbitrary: a) (auto simp: Let_def split: prod.splits)

text \<open>
  Claim C9. With the capacity \<^verbatim>\<open>cslSize\<close> of 50 and an empty current shard, 51
  allocations in a row give the indexes 0 to 49 of the current shard and then index 0 of the
  next shard: the slots span exactly two shard identifiers, and the two are distinct.
\<close>

theorem allocate_51_spans_two_shards:
  "fst (allocations (cslSize + 1) \<lparr>url = u, capacity = cslSize, current = n, fillCount = 0\<rparr>)
     = map (\<lambda>i. \<lparr>shard = (u, n), slotIndex = i\<rparr>) [0..<50]
       @ [\<lparr>shard = (u, n + 1), slotIndex = 0\<rparr>]
   \<and> cslSize + 1 = 51
   \<and> set (map shard (fst (allocations (cslSize + 1)
             \<lparr>url = u, capacity = cslSize, current = n, fillCount = 0\<rparr>)))
       = {(u, n), (u, n + 1)}
   \<and> (u, n) \<noteq> (u, n + 1)"
proof -
  let ?a = "\<lparr>url = u, capacity = cslSize, current = n, fillCount = 0\<rparr>"
  have first: "allocations cslSize ?a =
      (map (\<lambda>i. \<lparr>shard = (u, n), slotIndex = i\<rparr>) [0..<cslSize], ?a\<lparr>fillCount := cslSize\<rparr>)"
    using allocations_within [of ?a cslSize] by simp
  have last: "allocations 1 (?a\<lparr>fillCount := cslSize\<rparr>) =
      ([\<lparr>shard = (u, n + 1), slotIndex = 0\<rparr>],
       ?a\<lparr>current := n + 1, fillCount := 1\<rparr>)"
    by (simp add: Allocate_def)
  have all: "fst (allocations (cslSize + 1) ?a)
     = map (\<lambda>i. \<lparr>shard = (u, n), slotIndex = i\<rparr>) [0..<cslSize]
       @ [\<lparr>shard = (u, n + 1), slotIndex = 0\<rparr>]"
    by (simp only: allocations_add first last Let_def prod.case fst_conv)
  have size: "cslSize = 50" by (simp add: cslSize_def)
  have "set (map shard (map (\<lambda>i. \<lparr>shard = (u, n), slotIndex = i\<rparr>) [0..<cslSize]))
          = {(u, n)}"
    unfolding size by (simp add: o_def image_constant_conv)
  with all size show ?thesis by auto
qed

text \<open>The allocator of the concrete runs, whose first shard has the suffix 1.\<close>

theorem allocate_51_witness:
  "fst (allocations 51 testAllocator)
     = map (\<lambda>i. \<lparr>shard = (''https://example.com/status'', 1), slotIndex = i\<rparr>) [0..<50]
       @ [\<lparr>shard = (''https://example.com/status'', 2), slotIndex = 0\<rparr>]"
  using allocate_51_spans_two_shards [of "''https://example.com/status''" 1]
  by (simp add: testAllocator_def cslSize_def)

section \<open>Issuing with and without a status\<close>

lemma buildCredential_fresh:
  "buildCredential I composeCredReq = Done (Inr credential) \<Longrightarrow>
     Status credential = None \<and> Context credential = [''https://www.w3.org/2018/credentials/v1'']"
  by (auto simp: buildCredential_def Let_def split: sum.splits option.splits)

lemma update_with_status:
  "updateIssuer (updateContext I
       (credential\<lparr>Status := st, Context := Context credential @ [c]\<rparr>) profile) profile
   = (updateIssuer (updateContext I credential profile) profile)
       \<lparr>Status := st,
        Context := Context credential @ [c] @
          (if SignatureType profile = JSONWebSignature2020 I
           then [jsonWebSignature2020Context] else [])\<rparr>"
  by (simp add: updateIssuer_def updateContext_def)

lemma update_without_status:
  "Status (updateIssuer (updateContext I credential profile) profile) = Status credential
   \<and> Context (updateIssuer (updateContext I credential profile) profile)
       = Context credential @
          (if SignatureType profile = JSONWebSignature2020 I
           then [jsonWebSignature2020Context] else [])"
  by (simp add: updateIssuer_def updateContext_def)

lemma issueCredentialHandler_disabled:
  assumes "profileStore op profileID = Inr profile" and "body = Inr cred"
    and "validateIssueCredOptions (Opts cred) = None"
    and "NewCredential I (IssueCredentialRequest_Credential cred) WithDisabledProofCheck
           = Inr credential"
    and "DisableVCStatus profile"
  shows "issueCredentialHandler I op s profileID body =
           (respondSigned (crypto op profile
              (updateIssuer (updateContext I credential profile) profile)
              (getIssuerSigningOpts (Opts cred))), s)"
  using assms by (simp add: issueCredentialHandler_def)

lemma issueCredentialHandler_enabled:
  assumes "profileStore op profileID = Inr profile" and "body = Inr cred"
    and "validateIssueCredOptions (Opts cred) = None"
    and "NewCredential I (IssueCredentialRequest_Credential cred) WithDisabledProofCheck
           = Inr credential"
    and "\<not> DisableVCStatus profile"
    and "CreateStatusID (vcStatusManager op) s = (Inr statusID, s')"
  shows "issueCredentialHandler I op s profileID body =
           (respondSigned (crypto op profile
              ((updateIssuer (updateContext I credential profile) profile)
                 \<lparr>Status := Some statusID,
                  Context := Context credential @ [cslstatus_Context I] @
                    (if SignatureType profile = JSONWebSignature2020 I
                     then [jsonWebSignature2020Context] else [])\<rparr>)
              (getIssuerSigningOpts (Opts cred))), s')"
  using assms by (simp add: issueCredentialHandler_def update_with_status)

lemma composeAndIssueCredentialHandler_disabled:
  assumes "profileStore op id' = Inr profile" and "body = Inr composeCredReq"
    and "buildCredential I composeCredReq = Done (Inr credential)"
    and "getComposeSigningOpts I composeCredReq = Inr opts"
    and "DisableVCStatus profile"
  shows "composeAndIssueCredentialHandler I op s id' body =
           (Done (respondSigned (crypto op profile
              (updateIssuer (updateContext I credential profile) profile) opts)), s)"
  using assms by (simp add: composeAndIssueCredentialHandler_def)

lemma composeAndIssueCredentialHandler_enabled:
  assumes "profileStore op id' = Inr profile" and "body = Inr composeCredReq"
    and "buildCredential I composeCredReq = Done (Inr credential)"
    and "getComposeSigningOpts I composeCredReq = Inr opts"
    and "\<not> DisableVCStatus profile"
    and "CreateStatusID (vcStatusManager op) s = (Inr statusID, s')"
  shows "composeAndIssueCredentialHandler I op s id' body =
           (Done (respondSigned (crypto op profile
              ((updateIssuer (updateContext I credential profile) profile)
                 \<lparr>Status := Some statusID,
                  Context := Context credential @ [cslstatus_Context I] @
                    (if SignatureType profile = JSONWebSignature2020 I
                     then [jsonWebSignature2020Context] else [])\<rparr>) opts)), s')"
  using assms by (simp add: composeAndIssueCredentialHandler_def update_with_status)

lemma no_status_context:
  assumes "c \<notin> set (Context credential)" and "c \<noteq> jsonWebSignature2020Context"
  shows "c \<notin> set (Context (updateIssuer (updateContext I credential profile) profile))"
  using assms by (simp add: updateIssuer_def updateContext_def)

text \<open>
  Claim C7, as amended. Take an issuance, plain or composed, that reaches the signer, and let
  \<open>signed\<close> be the validated (or built) credential after \<^verbatim>\<open>updateContext\<close> and
  \<^verbatim>\<open>updateIssuer\<close>. Under a profile with \<^verbatim>\<open>DisableVCStatus\<close> the signer is given
  \<open>signed\<close> and the status manager is not called: the handler assigns no status and adds
  no status context. The status of \<open>signed\<close> is the status the validated credential
  carried, so it is unset when the request carried none, and always for a built credential;
  its context list is the validated one followed only by what \<^verbatim>\<open>updateContext\<close> appends
  for the signature type, so \<^verbatim>\<open>cslstatus.Context\<close> is in it only if the request
  carried it (never for a built credential). A status that the credential of a plain request
  carries is issued as it is. Under a profile with the status enabled the signer is given
  \<open>signed\<close> with the status set to the new status ID and \<^verbatim>\<open>cslstatus.Context\<close> added
  to the context list after the validated entries: every other field is as under the
  disabled profile.
\<close>

theorem status_touched_only_when_enabled:
  assumes "profileStore op profileID = Inr profile"
  shows
  "(body = Inr cred \<and> validateIssueCredOptions (Opts cred) = None
      \<and> NewCredential I (IssueCredentialRequest_Credential cred) WithDisabledProofCheck
          = Inr credential \<longrightarrow>
     (let signed = updateIssuer (updateContext I credential profile) profile;
          jws = (if SignatureType profile = JSONWebSignature2020 I
                 then [jsonWebSignature2020Context] else []);
          opts = getIssuerSigningOpts (Opts cred)
      in Status signed = Status credential
         \<and> (Status credential = None \<longrightarrow> Status signed = None)
         \<and> Context signed = Context credential @ jws
         \<and> (cslstatus_Context I \<notin> set (Context credential)
              \<and> cslstatus_Context I \<noteq> jsonWebSignature2020Context \<longrightarrow>
              cslstatus_Context I \<notin> set (Context signed))
         \<and> (DisableVCStatus profile \<longrightarrow>
              issueCredentialHandler I op s profileID body
                = (respondSigned (crypto op profile signed opts), s))
         \<and> (\<not> DisableVCStatus profile
              \<and> CreateStatusID (vcStatusManager op) s = (Inr statusID, s') \<longrightarrow>
              issueCredentialHandler I op s profileID body
                = (respondSigned (crypto op profile
                     (signed\<lparr>Status := Some statusID,
                        Context := Context credential @ [cslstatus_Context I] @ jws\<rparr>) opts),
                   s'))))
   \<and> (cbody = Inr composeCredReq \<and> buildCredential I composeCredReq = Done (Inr built)
        \<and> getComposeSigningOpts I composeCredReq = Inr copts \<longrightarrow>
     (let signed = updateIssuer (updateContext I built profile) profile;
          jws = (if SignatureType profile = JSONWebSignature2020 I
                 then [jsonWebSignature2020Context] else [])
      in Status signed = None
         \<and> Context signed = [''https://www.w3.org/2018/credentials/v1''] @ jws
         \<and> (cslstatus_Context I \<noteq> ''https://www.w3.org/2018/credentials/v1''
              \<and> cslstatus_Context I \<noteq> jsonWebSignature2020Context \<longrightarrow>
              cslstatus_Context I \<notin> set (Context signed))
         \<and> (DisableVCStatus profile \<longrightarrow>
              composeAndIssueCredentialHandler I op s profileID cbody
                = (Done (respondSigned (crypto op profile signed copts)), s))
         \<and> (\<not> DisableVCStatus profile
              \<and> CreateStatusID (vcStatusManager op) s = (Inr statusID, s') \<longrightarrow>
              composeAndIssueCredentialHandler I op s profileID cbody
                = (Done (respondSigned (crypto op profile
                     (signed\<lparr>Status := Some statusID,
                        Context := [''https://www.w3.org/2018/credentials/v1'',
                                    cslstatus_Context I] @ jws\<rparr>) copts)),
                   s'))))"
proof (intro conjI impI)
  assume a: "body = Inr cred \<and> validateIssueCredOptions (Opts cred) = None
      \<and> NewCredential I (IssueCredentialRequest_Credential cred) WithDisabledProofCheck
          = Inr credential"
  then have b: "body = Inr cred" and v: "validateIssueCredOptions (Opts cred) = None"
    and n: "NewCredential I (IssueCredentialRequest_Credential cred) WithDisabledProofCheck
          = Inr credential"
    by simp_all
  show "let signed = updateIssuer (updateContext I credential profile) profile;
          jws = (if SignatureType profile = JSONWebSignature2020 I
                 then [jsonWebSignature2020Context] else []);
          opts = getIssuerSigningOpts (Opts cred)
      in Status signed = Status credential
         \<and> (Status credential = None \<longrightarrow> Status signed = None)
         \<and> Context signed = Context credential @ jws
         \<and> (cslstatus_Context I \<notin> set (Context credential)
              \<and> cslstatus_Context I \<noteq> jsonWebSignature2020Context \<longrightarrow>
              cslstatus_Context I \<notin> set (Context signed))
         \<and> (DisableVCStatus profile \<longrightarrow>
              issueCredentialHandler I op s profileID body
                = (respondSigned (crypto op profile signed opts), s))
         \<and> (\<not> DisableVCStatus profile
              \<and> CreateStatusID (vcStatusManager op) s = (Inr statusID, s') \<longrightarrow>
              issueCredentialHandler I op s profileID body
                = (respondSigned (crypto op profile
                     (signed\<lparr>Status := Some statusID,
                        Context := Context credential @ [cslstatus_Context I] @ jws\<rparr>) opts),
                   s'))"
    unfolding Let_def
    using update_without_status [of I credential profile]
      no_status_context [of "cslstatus_Context I" credential I profile]
      issueCredentialHandler_disabled [OF assms b v n, of s]
      issueCredentialHandler_enabled [OF assms b v n, of s statusID s']
    by simp
next
  assume a: "cbody = Inr composeCredReq \<and> buildCredential I composeCredReq = Done (Inr built)
        \<and> getComposeSigningOpts I composeCredReq = Inr copts"
  then have b: "cbody = Inr composeCredReq"
    and c: "buildCredential I composeCredReq = Done (Inr built)"
    and g: "getComposeSigningOpts I composeCredReq = Inr copts"
    by simp_all
  show "let signed = updateIssuer (updateContext I built profile) profile;
          jws = (if SignatureType profile = JSONWebSignature2020 I
                 then [jsonWebSignature2020Context] else [])
      in Status signed = None
         \<and> Context signed = [''https://www.w3.org/2018/credentials/v1''] @ jws
         \<and> (cslstatus_Context I \<noteq> ''https://www.w3.org/2018/credentials/v1''
              \<and> cslstatus_Context I \<noteq> jsonWebSignature2020Context \<longrightarrow>
              cslstatus_Context I \<notin> set (Context signed))
         \<and> (DisableVCStatus profile \<longrightarrow>
              composeAndIssueCredentialHandler I op s profileID cbody
                = (Done (respondSigned (crypto op profile signed copts)), s))
         \<and> (\<not> DisableVCStatus profile
              \<and> CreateStatusID (vcStatusManager op) s = (Inr statusID, s') \<longrightarrow>
              composeAndIssueCredentialHandler I op s profileID cbody
                = (Done (respondSigned (crypto op profile
                     (signed\<lparr>Status := Some statusID,
                        Context := [''https://www.w3.org/2018/credentials/v1'',
                                    cslstatus_Context I] @ jws\<rparr>) copts)),
                   s'))"
    unfolding Let_def
    using update_without_status [of I built profile] buildCredential_fresh [OF c]
      no_status_context [of "cslstatus_Context I" built I profile]
      composeAndIssueCredentialHandler_disabled [OF assms b c g, of s]
      composeAndIssueCredentialHandler_enabled [OF assms b c g, of s statusID s']
    by simp
qed

lemma buildCredential_example:
  "buildCredential testImported exampleComposeRequest = Done (Inr composedCredential)"
  by (simp add: buildCredential_def exampleComposeRequest_def composedCredential_def
      decodeTypedID_def)

lemma getComposeSigningOpts_example:
  "getComposeSigningOpts testImported exampleComposeRequest
     = Inr [WithPurpose [], WithVerificationMethod [], WithSigningRepresentation ''jws'',
            WithCreated None]"
  by (simp add: getComposeSigningOpts_def exampleComposeRequest_def)

text \<open>
  A plain and a composed issuance under a profile whose status is disabled, and a plain
  issuance under a profile whose status is enabled.
\<close>

theorem status_touched_only_when_enabled_witness:
  "DisableVCStatus disabledProfile
   \<and> issueCredentialHandler testImported disabledOperation testAllocator ''profileA''
       (Inr exampleIssueRequest)
     = ([WriteHeader StatusCreated,
         WriteResponse (updateIssuer exampleCredential disabledProfile)], testAllocator)
   \<and> Status (updateIssuer exampleCredential disabledProfile) = None
   \<and> Context (updateIssuer exampleCredential disabledProfile)
     = [''https://www.w3.org/2018/credentials/v1'']
   \<and> composeAndIssueCredentialHandler testImported disabledOperation testAllocator ''profileA''
       (Inr exampleComposeRequest)
     = (Done [WriteHeader StatusCreated,
              WriteResponse (updateIssuer composedCredential disabledProfile)], testAllocator)
   \<and> Status (updateIssuer composedCredential disabledProfile) = None
   \<and> Context (updateIssuer composedCredential disabledProfile)
     = [''https://www.w3.org/2018/credentials/v1'']
   \<and> \<not> DisableVCStatus exampleProfile
   \<and> issueCredentialHandler testImported testOperation testAllocator ''profileA''
       (Inr exampleIssueRequest)
     = ([WriteHeader StatusCreated,
         WriteResponse ((updateIssuer exampleCredential exampleProfile)
           \<lparr>Status := Some exampleStatusID,
            Context := [''https://www.w3.org/2018/credentials/v1'',
                        ''https://w3id.org/vc-status-list-2017/v1'']\<rparr>)],
        testAllocator\<lparr>fillCount := 1\<rparr>)"
proof -
  have p: "profileStore disabledOperation ''profileA'' = Inr disabledProfile"
    by (simp add: disabledOperation_def)
  have d: "DisableVCStatus disabledProfile" by (simp add: disabledProfile_def)
  have sig: "SignatureType disabledProfile \<noteq> JSONWebSignature2020 testImported"
    by (simp add: disabledProfile_def exampleProfile_def testImported_def)
  have v: "validateIssueCredOptions (Opts exampleIssueRequest) = None"
    by (simp add: validateIssueCredOptions_def exampleIssueRequest_def)
  have n: "NewCredential testImported (IssueCredentialRequest_Credential exampleIssueRequest)
             WithDisabledProofCheck = Inr exampleCredential"
    by (simp add: testImported_def exampleIssueRequest_def)
  have o: "getIssuerSigningOpts (Opts exampleIssueRequest) = []"
    by (simp add: getIssuerSigningOpts_def exampleIssueRequest_def)
  have c: "crypto disabledOperation = (\<lambda>profile credential opts. Inr credential)"
    by (simp add: disabledOperation_def testOperation_def)
  have s1: "Status exampleCredential = None"
    and c1: "Context exampleCredential = [''https://www.w3.org/2018/credentials/v1'']"
    by (simp_all add: exampleCredential_def)
  have p': "profileStore testOperation ''profileA'' = Inr exampleProfile"
    by (simp add: testOperation_def exampleProfile_def)
  have e: "\<not> DisableVCStatus exampleProfile" by (simp add: exampleProfile_def)
  have sig': "SignatureType exampleProfile \<noteq> JSONWebSignature2020 testImported"
    by (simp add: exampleProfile_def testImported_def)
  have st: "CreateStatusID (vcStatusManager testOperation) testAllocator
              = (Inr exampleStatusID, testAllocator\<lparr>fillCount := 1\<rparr>)"
    by (simp add: testOperation_def testStatusManager_def testAllocator_def Allocate_def
        cslSize_def exampleStatusID_def)
  have c': "crypto testOperation = (\<lambda>profile credential opts. Inr credential)"
    by (simp add: testOperation_def)
  have csl: "cslstatus_Context testImported = ''https://w3id.org/vc-status-list-2017/v1''"
    by (simp add: testImported_def)
  from status_touched_only_when_enabled
    [OF p', of "Inr exampleIssueRequest" exampleIssueRequest testImported exampleCredential
       testAllocator exampleStatusID "testAllocator\<lparr>fillCount := 1\<rparr>"
       "Inr exampleComposeRequest" exampleComposeRequest composedCredential
       "[WithPurpose [], WithVerificationMethod [], WithSigningRepresentation ''jws'',
         WithCreated None]"]
    e sig' v n o c' c1 st csl
  have enabled: "issueCredentialHandler testImported testOperation testAllocator ''profileA''
       (Inr exampleIssueRequest)
     = ([WriteHeader StatusCreated,
         WriteResponse ((updateIssuer exampleCredential exampleProfile)
           \<lparr>Status := Some exampleStatusID,
            Context := [''https://www.w3.org/2018/credentials/v1'',
                        ''https://w3id.org/vc-status-list-2017/v1'']\<rparr>)],
        testAllocator\<lparr>fillCount := 1\<rparr>)"
    by (simp add: Let_def updateContext_def respondSigned_def)
  from status_touched_only_when_enabled
    [OF p, of "Inr exampleIssueRequest" exampleIssueRequest testImported exampleCredential
       testAllocator undefined undefined "Inr exampleComposeRequest" exampleComposeRequest
       composedCredential
       "[WithPurpose [], WithVerificationMethod [], WithSigningRepresentation ''jws'',
         WithCreated None]"]
    d sig v n o c s1 c1 buildCredential_example getComposeSigningOpts_example enabled e
  show ?thesis
    by (simp add: Let_def updateContext_def respondSigned_def)
qed

text \<open>
  The claim as stated fails for a plain issuance under a profile whose status is disabled
  when the credential of the request carries a status: the handler leaves the status and
  the status context of the request in place, and the credential that is signed and
  returned carries both.
\<close>

theorem status_touched_only_when_enabled_counterexample:
  "profileStore disabledOperation ''profileA'' = Inr disabledProfile
   \<and> DisableVCStatus disabledProfile
   \<and> NewCredential statusImported (IssueCredentialRequest_Credential statusIssueRequest)
       WithDisabledProofCheck = Inr credentialWithStatus
   \<and> issueCredentialHandler statusImported disabledOperation testAllocator ''profileA''
       (Inr statusIssueRequest)
     = ([WriteHeader StatusCreated,
         WriteResponse (updateIssuer credentialWithStatus disabledProfile)], testAllocator)
   \<and> Status (updateIssuer credentialWithStatus disabledProfile) = Some carriedStatus
   \<and> cslstatus_Context statusImported
       \<in> set (Context (updateIssuer credentialWithStatus disabledProfile))"
  by code_simp
section \<open>Decoding the fragments of a compose request\<close>

lemma unmarshalProofFormatOptions_array:
  "parseJSON b = Inr (JArray vs) \<Longrightarrow> unmarshalProofFormatOptions I b p = Inl errType"
  by (simp add: unmarshalProofFormatOptions_def)

text \<open>
  Claim C8, as amended. The decoding in two shapes is what \<^verbatim>\<open>decodeTypedID\<close> does to the
  terms-of-use fragment of a compose request: an absent or empty fragment gives no terms of
  use and no error; any other fragment is first decoded as one object, which gives a list of
  one element; only if that fails is it decoded as an array, which gives that array; if both
  fail, the error of the second attempt is returned. The proof-format options of a compose
  request are decoded by \<^verbatim>\<open>getComposeSigningOpts\<close> in one shape only: a fragment that
  decodes as one object gives the signing options, every other fragment gives an error, and
  a fragment that is an array always does.
\<close>

theorem two_shapes_for_terms_of_use_one_for_options:
  "decodeTypedID I None = Inr [] \<and> decodeTypedID I (Some []) = Inr []
   \<and> (b \<noteq> [] \<and> unmarshalTypedID I b = Inr single \<longrightarrow>
        decodeTypedID I (Some b) = Inr [single])
   \<and> (b \<noteq> [] \<and> unmarshalTypedID I b = Inl e \<and> unmarshalTypedIDs I b = Inr composed \<longrightarrow>
        decodeTypedID I (Some b) = Inr composed)
   \<and> (b \<noteq> [] \<and> unmarshalTypedID I b = Inl e \<and> unmarshalTypedIDs I b = Inl e' \<longrightarrow>
        decodeTypedID I (Some b) = Inl e')
   \<and> (ProofFormatOptions composeCredReq = Some b'
        \<and> unmarshalProofFormatOptions I b'
             \<lparr>KeyID = [], Purpose = [], proofFormatOptions_Created = None\<rparr> = Inr p \<longrightarrow>
        getComposeSigningOpts I composeCredReq =
          Inr [WithPurpose (Purpose p), WithVerificationMethod (KeyID p),
               WithSigningRepresentation
                 (if ProofFormat composeCredReq \<noteq> [] then ProofFormat composeCredReq
                  else ''jws''),
               WithCreated (proofFormatOptions_Created p)])
   \<and> (ProofFormatOptions composeCredReq = Some b'
        \<and> unmarshalProofFormatOptions I b'
             \<lparr>KeyID = [], Purpose = [], proofFormatOptions_Created = None\<rparr> = Inl e'' \<longrightarrow>
        getComposeSigningOpts I composeCredReq
          = Inl (''failed to prepare signing opts: '' @ e''))
   \<and> (ProofFormatOptions composeCredReq = Some b' \<and> parseJSON b' = Inr (JArray vs) \<longrightarrow>
        getComposeSigningOpts I composeCredReq
          = Inl (''failed to prepare signing opts: '' @ errType))"
  by (simp add: decodeTypedID_def getComposeSigningOpts_def unmarshalProofFormatOptions_array)

lemma policy_decodes:
  "unmarshalTypedID testImported termsOfUseSingle
     = Inr \<lparr>TypedID_ID = ''http://example.com/policies/credential/4'',
            TypedID_Type = ''IssuerPolicy'', TypedID_CustomFields = []\<rparr>"
  by code_simp

lemma policies_decode:
  "unmarshalTypedID testImported termsOfUseArray = Inl errType
   \<and> unmarshalTypedIDs testImported termsOfUseArray
     = Inr [\<lparr>TypedID_ID = ''http://example.com/policies/credential/4'',
             TypedID_Type = ''IssuerPolicy'', TypedID_CustomFields = []\<rparr>,
            \<lparr>TypedID_ID = ''http://example.com/policies/credential/4'',
             TypedID_Type = ''IssuerPolicy'', TypedID_CustomFields = []\<rparr>]"
  by code_simp

lemma optionsArray_parses:
  "parseJSON optionsArray = Inr (JArray [JObject [(''kid'', JString ''key-1'')]])"
  by code_simp

text \<open>
  Terms of use as one object and as an array of two, and proof-format options as an array.
\<close>

theorem two_shapes_witness:
  "termsOfUseSingle \<noteq> []
   \<and> decodeTypedID testImported (Some termsOfUseSingle)
     = Inr [\<lparr>TypedID_ID = ''http://example.com/policies/credential/4'',
             TypedID_Type = ''IssuerPolicy'', TypedID_CustomFields = []\<rparr>]
   \<and> termsOfUseArray \<noteq> []
   \<and> decodeTypedID testImported (Some termsOfUseArray)
     = Inr [\<lparr>TypedID_ID = ''http://example.com/policies/credential/4'',
             TypedID_Type = ''IssuerPolicy'', TypedID_CustomFields = []\<rparr>,
            \<lparr>TypedID_ID = ''http://example.com/policies/credential/4'',
             TypedID_Type = ''IssuerPolicy'', TypedID_CustomFields = []\<rparr>]
   \<and> getComposeSigningOpts testImported
       (exampleComposeRequest\<lparr>ProofFormatOptions := Some optionsArray\<rparr>)
     = Inl (''failed to prepare signing opts: '' @ errType)"
proof -
  have n1: "termsOfUseSingle \<noteq> []" by (simp add: termsOfUseSingle_def policy_def)
  have n2: "termsOfUseArray \<noteq> []" by (simp add: termsOfUseArray_def)
  have o: "ProofFormatOptions (exampleComposeRequest\<lparr>ProofFormatOptions := Some optionsArray\<rparr>)
             = Some optionsArray" by simp
  from two_shapes_for_terms_of_use_one_for_options
    [of testImported termsOfUseSingle _ _ _ _
        "exampleComposeRequest\<lparr>ProofFormatOptions := Some optionsArray\<rparr>" optionsArray]
    n1 policy_decodes
  have a: "decodeTypedID testImported (Some termsOfUseSingle)
     = Inr [\<lparr>TypedID_ID = ''http://example.com/policies/credential/4'',
             TypedID_Type = ''IssuerPolicy'', TypedID_CustomFields = []\<rparr>]"
    by blast
  from two_shapes_for_terms_of_use_one_for_options
    [of testImported termsOfUseArray _ errType _ _
        "exampleComposeRequest\<lparr>ProofFormatOptions := Some optionsArray\<rparr>" optionsArray]
    n2 policies_decode
  have b: "decodeTypedID testImported (Some termsOfUseArray)
     = Inr [\<lparr>TypedID_ID = ''http://example.com/policies/credential/4'',
             TypedID_Type = ''IssuerPolicy'', TypedID_CustomFields = []\<rparr>,
            \<lparr>TypedID_ID = ''http://example.com/policies/credential/4'',
             TypedID_Type = ''IssuerPolicy'', TypedID_CustomFields = []\<rparr>]"
    by blast
  from two_shapes_for_terms_of_use_one_for_options
    [of testImported termsOfUseArray _ errType _ _
        "exampleComposeRequest\<lparr>ProofFormatOptions := Some optionsArray\<rparr>" optionsArray]
    o optionsArray_parses
  have c: "getComposeSigningOpts testImported
       (exampleComposeRequest\<lparr>ProofFormatOptions := Some optionsArray\<rparr>)
     = Inl (''failed to prepare signing opts: '' @ errType)"
    by blast
  from n1 a n2 b c show ?thesis by simp
qed

text \<open>
  The claim as stated, for the options of a compose request, fails on an array of one
  object: the object by itself decodes as options, and the array is refused.
\<close>

theorem options_array_counterexample:
  "parseJSON optionsArray = Inr (JArray [JObject [(''kid'', JString ''key-1'')]])
   \<and> decodeProofFormatOptions testImported [(''kid'', JString ''key-1'')]
       \<lparr>KeyID = [], Purpose = [], proofFormatOptions_Created = None\<rparr>
     = Inr \<lparr>KeyID = ''key-1'', Purpose = [], proofFormatOptions_Created = None\<rparr>
   \<and> getComposeSigningOpts testImported
       (exampleComposeRequest\<lparr>ProofFormatOptions := Some optionsArray\<rparr>)
     = Inl (''failed to prepare signing opts: '' @ errType)"
  by code_simp

section \<open>The scanner reads what the writer writes\<close>

lemma plainChar_not_quote: "plainChar c \<Longrightarrow> c \<noteq> CHR 0x22"
  by (simp add: plainChar_def)

lemma run_key:
  "plain s \<Longrightarrow> run (InKey kvs acc, stk) (s @ CHR 0x22 # rest) = run (ExpectColon kvs (acc @ s), stk) rest"
  by (induction s arbitrary: acc) (auto simp: plain_def plainChar_not_quote)

lemma run_string:
  "plain s \<Longrightarrow> run (InString acc, stk) (s @ CHR 0x22 # rest) = run (AfterValue (JString (acc @ s)), stk) rest"
  by (induction s arbitrary: acc) (auto simp: plain_def plainChar_not_quote)

lemma render_JArray_Cons: "render (JArray (v # vs)) = CHR ''['' # render v @ elementsTail vs"
proof -
  have "join '','' (map render (v # vs)) @ '']'' = render v @ elementsTail vs" for v
    by (induction vs arbitrary: v) auto
  then show ?thesis by simp
qed

lemma render_JObject_Cons:
  "render (JObject (kv # kvs)) =
     CHR ''{'' # quote (fst kv) @ CHR '':'' # render (snd kv) @ membersTail kvs"
proof -
  have "join '','' (map (\<lambda>kv. quote (fst kv) @ '':'' @ render (snd kv)) (kv # kvs)) @ ''}''
          = quote (fst kv) @ CHR '':'' # render (snd kv) @ membersTail kvs" for kv
    by (induction kvs arbitrary: kv) auto
  then show ?thesis by simp
qed

lemma render_first:
  "plainValue t \<Longrightarrow> \<exists>c cs. render t = c # cs \<and> \<not> isSpace c \<and> c \<noteq> CHR '']''"
proof (cases t)
  case (JArray vs)
  then show ?thesis by (cases vs) (auto simp: isSpace_def)
next
  case (JObject kvs)
  then show ?thesis by (cases kvs) (auto simp: isSpace_def)
qed (auto simp: quote_def isSpace_def)

lemma run_ArrayStart:
  assumes "plainValue t"
  shows "run (ArrayStart, stk) (render t @ rest)
         = run (ExpectValue, InArray [] # stk) (render t @ rest)"
proof -
  obtain c cs where "render t = c # cs" "\<not> isSpace c" "c \<noteq> CHR '']''"
    using render_first [OF assms] by blast
  then show ?thesis by simp
qed

lemma run_elements:
  assumes "\<And>w stk rest. w \<in> set vs \<Longrightarrow>
             run (ExpectValue, stk) (render w @ rest) = run (AfterValue w, stk) rest"
  shows "run (AfterValue v, InArray acc # stk) (elementsTail vs @ rest)
         = run (AfterValue (JArray (acc @ v # vs)), stk) rest"
  using assms
proof (induction vs arbitrary: v acc)
  case Nil
  show ?case by (simp add: isSpace_def)
next
  case (Cons w ws)
  have "run (AfterValue v, InArray acc # stk) (elementsTail (w # ws) @ rest)
          = run (ExpectValue, InArray (acc @ [v]) # stk) (render w @ elementsTail ws @ rest)"
    by (simp add: isSpace_def)
  also have "\<dots> = run (AfterValue w, InArray (acc @ [v]) # stk) (elementsTail ws @ rest)"
    by (rule Cons.prems) simp
  also have "\<dots> = run (AfterValue (JArray ((acc @ [v]) @ w # ws)), stk) rest"
    by (rule Cons.IH) (simp add: Cons.prems)
  finally show ?case by simp
qed

lemma run_members:
  assumes "\<And>kv stk rest. kv \<in> set kvs \<Longrightarrow>
             plain (fst kv)
             \<and> run (ExpectValue, stk) (render (snd kv) @ rest) = run (AfterValue (snd kv), stk) rest"
  shows "run (AfterValue v, InObject acc k # stk) (membersTail kvs @ rest)
         = run (AfterValue (JObject (acc @ (k, v) # kvs)), stk) rest"
  using assms
proof (induction kvs arbitrary: v k acc)
  case Nil
  show ?case by (simp add: isSpace_def)
next
  case (Cons m ms)
  have pk: "plain (fst m)" using Cons.prems [of m] by simp
  have "run (AfterValue v, InObject acc k # stk) (membersTail (m # ms) @ rest)
          = run (InKey (acc @ [(k, v)]) [], stk)
              (fst m @ CHR 0x22 # CHR '':'' # render (snd m) @ membersTail ms @ rest)"
    by (simp add: isSpace_def quote_def)
  also have "\<dots> = run (ExpectColon (acc @ [(k, v)]) ([] @ fst m), stk)
              (CHR '':'' # render (snd m) @ membersTail ms @ rest)"
    by (rule run_key [OF pk])
  also have "\<dots> = run (ExpectValue, InObject (acc @ [(k, v)]) (fst m) # stk)
              (render (snd m) @ membersTail ms @ rest)"
    by (simp add: isSpace_def)
  also have "\<dots> = run (AfterValue (snd m), InObject (acc @ [(k, v)]) (fst m) # stk)
              (membersTail ms @ rest)"
    using Cons.prems [of m] by simp
  also have "\<dots> = run (AfterValue (JObject ((acc @ [(k, v)]) @ (fst m, snd m) # ms)), stk) rest"
    by (rule Cons.IH) (simp add: Cons.prems)
  finally show ?case by simp
qed

lemma run_render:
  "plainValue t \<Longrightarrow> run (ExpectValue, stk) (render t @ rest) = run (AfterValue t, stk) rest"
proof (induction t arbitrary: stk rest)
  case JNull
  show ?case by (simp add: isSpace_def beginValue_def)
next
  case (JBool b)
  show ?case by (cases b) (simp_all add: isSpace_def beginValue_def)
next
  case (JNumber n)
  then show ?case by simp
next
  case (JString s)
  then have p: "plain s" by simp
  have "run (ExpectValue, stk) (render (JString s) @ rest)
          = run (InString [], stk) (s @ CHR 0x22 # rest)"
    by (simp add: quote_def isSpace_def beginValue_def)
  also have "\<dots> = run (AfterValue (JString ([] @ s)), stk) rest"
    by (rule run_string [OF p])
  finally show ?case by simp
next
  case (JArray vs)
  show ?case
  proof (cases vs)
    case Nil
    then show ?thesis by (simp add: isSpace_def beginValue_def)
  next
    case (Cons v ws)
    have each: "\<And>w stk rest. w \<in> set vs \<Longrightarrow>
        run (ExpectValue, stk) (render w @ rest) = run (AfterValue w, stk) rest"
      using JArray by (simp add: list_all_iff)
    have "run (ExpectValue, stk) (render (JArray (v # ws)) @ rest)
            = run (ArrayStart, stk) (render v @ elementsTail ws @ rest)"
      by (simp only: render_JArray_Cons) (simp add: isSpace_def beginValue_def)
    also have "\<dots> = run (ExpectValue, InArray [] # stk) (render v @ elementsTail ws @ rest)"
      using JArray.prems by (intro run_ArrayStart) (simp add: Cons)
    also have "\<dots> = run (AfterValue v, InArray [] # stk) (elementsTail ws @ rest)"
      by (rule each) (simp add: Cons)
    also have "\<dots> = run (AfterValue (JArray ([] @ v # ws)), stk) rest"
      by (rule run_elements) (simp add: each Cons)
    finally show ?thesis by (simp add: Cons)
  qed
next
  case (JObject kvs)
  show ?case
  proof (cases kvs)
    case Nil
    then show ?thesis by (simp add: isSpace_def beginValue_def)
  next
    case (Cons m ms)
    have each: "\<And>kv stk rest. kv \<in> set kvs \<Longrightarrow>
        plain (fst kv)
        \<and> run (ExpectValue, stk) (render (snd kv) @ rest) = run (AfterValue (snd kv), stk) rest"
    proof -
      fix kv :: "string \<times> jvalue" and stk rest
      assume kv: "kv \<in> set kvs"
      with JObject.prems have p: "plain (fst kv)" "plainValue (snd kv)"
        by (simp_all add: list_all_iff)
      have "snd kv \<in> Basic_BNFs.snds kv" by (cases kv) simp
      from JObject.IH [OF kv this p(2)] p(1)
      show "plain (fst kv)
        \<and> run (ExpectValue, stk) (render (snd kv) @ rest) = run (AfterValue (snd kv), stk) rest"
        by simp
    qed
    have pk: "plain (fst m)" using each [of m] Cons by simp
    have "run (ExpectValue, stk) (render (JObject (m # ms)) @ rest)
            = run (InKey [] [], stk)
                (fst m @ CHR 0x22 # CHR '':'' # render (snd m) @ membersTail ms @ rest)"
      by (simp only: render_JObject_Cons) (simp add: isSpace_def beginValue_def quote_def)
    also have "\<dots> = run (ExpectColon [] ([] @ fst m), stk)
                (CHR '':'' # render (snd m) @ membersTail ms @ rest)"
      by (rule run_key [OF pk])
    also have "\<dots> = run (ExpectValue, InObject [] (fst m) # stk)
                (render (snd m) @ membersTail ms @ rest)"
      by (simp add: isSpace_def)
    also have "\<dots> = run (AfterValue (snd m), InObject [] (fst m) # stk) (membersTail ms @ rest)"
      using each [of m] Cons by simp
    also have "\<dots> = run (AfterValue (JObject ([] @ (fst m, snd m) # ms)), stk) rest"
      by (rule run_members) (simp add: each Cons)
    finally show ?thesis by (simp add: Cons)
  qed
qed

lemma parseJSON_render: "plainValue t \<Longrightarrow> parseJSON (render t) = Inr t"
  using run_render [of t "[]" "[]"] by (simp add: parseJSON_def)

section \<open>The scanner returns plain values\<close>

lemma plainMembers_snoc:
  "plainMembers (kvs @ [(k, v)]) \<longleftrightarrow> plainMembers kvs \<and> plain k \<and> plainValue v"
  by (auto simp: plainMembers_def)

lemma plainValue_JObject: "plainValue (JObject kvs) = plainMembers kvs"
  by (simp add: plainMembers_def)

lemma beginValue_plain:
  "beginValue c stk = Inr cfg' \<Longrightarrow> list_all plainFrame stk \<Longrightarrow> plainCfg cfg'"
  by (auto simp: beginValue_def plainCfg_def plain_def plainMembers_def split: if_splits)

lemma step_plain:
  "plainCfg cfg \<Longrightarrow> step cfg c = Inr cfg' \<Longrightarrow> plainCfg cfg'"
proof (induction cfg c rule: step.induct)
  case (1 stk c)
  then show ?case
    by (auto simp: plainCfg_def split: if_splits dest: beginValue_plain)
next
  case (2 stk c)
  then show ?case
    by (auto simp: plainCfg_def split: if_splits dest!: beginValue_plain [of _ "InArray [] # stk"])
next
  case (3 stk c)
  then show ?case by (auto simp: plainCfg_def plain_def plainMembers_def split: if_splits)
next
  case (4 kvs stk c)
  then show ?case by (auto simp: plainCfg_def plain_def split: if_splits)
next
  case (5 kvs k stk c)
  then show ?case by (auto simp: plainCfg_def plain_def split: if_splits)
next
  case (6 kvs k stk c)
  then show ?case by (auto simp: plainCfg_def split: if_splits)
next
  case (7 s stk c)
  then show ?case by (auto simp: plainCfg_def plain_def split: if_splits)
next
  case (8 v stk c)
  then show ?case by simp
next
  case (9 l ls v stk c)
  then show ?case by (auto simp: plainCfg_def split: if_splits)
next
  case (10 v c)
  then show ?case by (auto simp: plainCfg_def split: if_splits)
next
  case (11 v vs stk c)
  then show ?case by (auto simp: plainCfg_def split: if_splits)
next
  case (12 v kvs k stk c)
  then show ?case
    by (auto simp: plainCfg_def plainValue_JObject plainMembers_snoc
        simp del: plainValue.simps(4) split: if_splits)
qed

lemma finish_plain: "plainCfg cfg \<Longrightarrow> finish cfg = Inr t \<Longrightarrow> plainValue t"
  by (induction cfg rule: finish.induct) (auto simp: plainCfg_def)

lemma run_plain: "plainCfg cfg \<Longrightarrow> run cfg s = Inr t \<Longrightarrow> plainValue t"
proof (induction s arbitrary: cfg)
  case Nil
  then show ?case by (simp add: finish_plain)
next
  case (Cons c cs)
  then show ?case by (auto split: sum.splits dest: step_plain)
qed

lemma parseJSON_plain: "parseJSON b = Inr t \<Longrightarrow> plainValue t"
  unfolding parseJSON_def by (rule run_plain [of "(ExpectValue, [])"]) (simp_all add: plainCfg_def)

section \<open>Decoding a value and writing it again\<close>

lemma update_plainMembers:
  "plainMembers m \<Longrightarrow> plain k \<Longrightarrow> plainValue v \<Longrightarrow> plainMembers (AList.update k v m)"
  by (induction m) (auto simp: plainMembers_def)

lemma fold_update_plainMembers:
  "plainMembers acc \<Longrightarrow> \<forall>kv \<in> set kvs. plain (fst kv) \<and> plainValue (f (snd kv)) \<Longrightarrow>
     plainMembers (fold (\<lambda>kv m. AList.update (fst kv) (f (snd kv)) m) kvs acc)"
  by (induction kvs arbitrary: acc) (auto simp: update_plainMembers)

lemma toGo_plain: "plainValue t \<Longrightarrow> plainValue (toGo t)"
proof (induction t)
  case (JArray vs)
  then show ?case by (simp add: list_all_iff)
next
  case (JObject kvs)
  have "\<forall>kv \<in> set kvs. plain (fst kv) \<and> plainValue (toGo (snd kv))"
  proof
    fix kv assume kv: "kv \<in> set kvs"
    with JObject.prems have p: "plain (fst kv)" "plainValue (snd kv)"
      by (simp_all add: list_all_iff)
    have "snd kv \<in> Basic_BNFs.snds kv" by (cases kv) simp
    from JObject.IH [OF kv this p(2)] p(1)
    show "plain (fst kv) \<and> plainValue (toGo (snd kv))" by simp
  qed
  then have "plainMembers (fold (\<lambda>kv m. AList.update (fst kv) (toGo (snd kv)) m) kvs [])"
    by (intro fold_update_plainMembers) (simp_all add: plainMembers_def)
  then show ?case by (simp add: plainMembers_def)
qed simp_all

lemma update_new_key: "k \<notin> fst ` set m \<Longrightarrow> AList.update k v m = m @ [(k, v)]"
  by (induction m) auto

lemma fold_update_distinct:
  "distinct (map fst acc @ map fst kvs) \<Longrightarrow> \<forall>kv \<in> set kvs. f (snd kv) = snd kv \<Longrightarrow>
     fold (\<lambda>kv m. AList.update (fst kv) (f (snd kv)) m) kvs acc = acc @ kvs"
proof (induction kvs arbitrary: acc)
  case Nil
  then show ?case by simp
next
  case (Cons kv kvs)
  from Cons.prems have new: "fst kv \<notin> fst ` set acc" by auto
  from Cons.prems have d: "distinct (map fst (acc @ [kv]) @ map fst kvs)" by auto
  from Cons.prems have same: "f (snd kv) = snd kv" by simp
  have "fold (\<lambda>kv m. AList.update (fst kv) (f (snd kv)) m) (kv # kvs) acc
          = fold (\<lambda>kv m. AList.update (fst kv) (f (snd kv)) m) kvs (acc @ [kv])"
    by (simp add: update_new_key [OF new] same)
  also have "\<dots> = (acc @ [kv]) @ kvs"
    by (rule Cons.IH [OF d]) (simp add: Cons.prems)
  finally show ?case by simp
qed

lemma canonical_plain: "canonical t \<Longrightarrow> plainValue t"
proof (induction t)
  case (JArray vs)
  then show ?case by (simp add: list_all_iff)
next
  case (JObject kvs)
  have "\<forall>kv \<in> set kvs. plain (fst kv) \<and> plainValue (snd kv)"
  proof
    fix kv assume kv: "kv \<in> set kvs"
    with JObject.prems have p: "plain (fst kv)" "canonical (snd kv)"
      by (simp_all add: list_all_iff)
    have "snd kv \<in> Basic_BNFs.snds kv" by (cases kv) simp
    from JObject.IH [OF kv this p(2)] p(1)
    show "plain (fst kv) \<and> plainValue (snd kv)" by simp
  qed
  then show ?case by (simp add: list_all_iff)
qed simp_all

lemma canonical_toGo: "canonical t \<Longrightarrow> toGo t = t"
proof (induction t)
  case (JArray vs)
  then show ?case by (simp add: list_all_iff map_idI)
next
  case (JObject kvs)
  have same: "\<forall>kv \<in> set kvs. toGo (snd kv) = snd kv"
  proof
    fix kv assume kv: "kv \<in> set kvs"
    with JObject.prems have p: "canonical (snd kv)" by (simp add: list_all_iff)
    have "snd kv \<in> Basic_BNFs.snds kv" by (cases kv) simp
    from JObject.IH [OF kv this p] show "toGo (snd kv) = snd kv" .
  qed
  from JObject.prems have "sorted_wrt (<) (map fst kvs)" by simp
  then have "distinct (map fst kvs)" by (simp add: strict_sorted_iff)
  then have "distinct (map fst [] @ map fst kvs)" by simp
  from fold_update_distinct [OF this same] show ?case by simp
qed simp_all

lemma canonical_sortKeys: "canonical t \<Longrightarrow> sortKeys t = t"
proof (induction t)
  case (JArray vs)
  then show ?case by (simp add: list_all_iff map_idI)
next
  case (JObject kvs)
  have same: "map (\<lambda>kv. (fst kv, sortKeys (snd kv))) kvs = kvs"
  proof (rule map_idI)
    fix kv assume kv: "kv \<in> set kvs"
    with JObject.prems have p: "canonical (snd kv)" by (simp add: list_all_iff)
    have "snd kv \<in> Basic_BNFs.snds kv" by (cases kv) simp
    from JObject.IH [OF kv this p] show "(fst kv, sortKeys (snd kv)) = kv" by simp
  qed
  from JObject.prems have s: "sorted_wrt (<) (map fst kvs)" by simp
  then have "distinct (map fst kvs)" by (simp add: strict_sorted_iff)
  then have junk: "AList.clearjunk kvs = kvs" by (rule distinct_clearjunk_id)
  from s have "sorted (map fst kvs)" by (rule strict_sorted_imp_sorted)
  then have "sort_key fst kvs = kvs" by (rule sort_key_id_if_sorted)
  with same junk show ?case by simp
qed simp_all

lemma canonical_fixed: "canonical t \<Longrightarrow> render (sortKeys (toGo t)) = render t"
  by (simp add: canonical_toGo canonical_sortKeys)

section \<open>Storing a credential and retrieving it\<close>

lemma plain_names:
  "plain ''id''" "plain ''meta''" "plain ''content''" "plain ''message''"
  by (simp_all add: plain_def plainChar_def)

lemma marshal_built:
  assumes "plain docID" and "parseJSON cred = Inr t"
  shows "marshalStructuredDocument
           \<lparr>StructuredDocument_ID = docID, Meta = None,
            Content = Some [(''message'', RawMessage cred)]\<rparr>
         = Inr (render (JObject [(''id'', JString docID), (''meta'', JNull),
                  (''content'', JObject [(''message'', t)])]))"
  using assms
  by (simp add: marshalStructuredDocument_def marshalMap_def marshalGoValue_def compact_def
      plain_names quote_def)

lemma marshal_built_only_if:
  assumes "marshalStructuredDocument
           \<lparr>StructuredDocument_ID = docID, Meta = None,
            Content = Some [(''message'', RawMessage cred)]\<rparr> = Inr b"
  shows "plain docID \<and> (\<exists>t. parseJSON cred = Inr t)"
  using assms
  by (auto simp: marshalStructuredDocument_def marshalMap_def marshalGoValue_def compact_def
      split: if_splits sum.splits)

lemma unmarshal_built:
  assumes "plain docID" and "plainValue t"
  shows "unmarshalStructuredDocument
           (render (JObject [(''id'', JString docID), (''meta'', JNull),
              (''content'', JObject [(''message'', t)])]))
         = Inr \<lparr>StructuredDocument_ID = docID, Meta = None,
                Content = Some [(''message'', Generic (toGo t))]\<rparr>"
proof -
  have "plainValue (JObject [(''id'', JString docID), (''meta'', JNull),
              (''content'', JObject [(''message'', t)])])"
    using assms by (simp add: plain_names)
  then have "parseJSON (render (JObject [(''id'', JString docID), (''meta'', JNull),
              (''content'', JObject [(''message'', t)])]))
      = Inr (JObject [(''id'', JString docID), (''meta'', JNull),
              (''content'', JObject [(''message'', t)])])"
    by (rule parseJSON_render)
  then show ?thesis
    by (simp add: unmarshalStructuredDocument_def equalFold_def lower_def decodeMapField_def
        del: render.simps)
qed

lemma marshalInterface_decoded:
  "plainValue v \<Longrightarrow> marshalInterface (Some (Generic v)) = Inr (render (sortKeys v))"
  by (simp add: marshalInterface_def marshalGoValue_def marshalValue_def)

lemma retrieve_built:
  assumes "libraryOnFragment I"
    and "plain docID'" and "parseJSON cred = Inr t"
    and "ReadDocument (edvClient op) h profileName docID = Inr encryptedDocument"
    and "jose_Deserialize I (JWE encryptedDocument) = Inr jwe'"
    and "jweDecrypter op jwe' = Inr (render (JObject [(''id'', JString docID'), (''meta'', JNull),
              (''content'', JObject [(''message'', t)])]))"
  shows "fst (retrieveVC I op h profileName docID contextErrText)
           = Inr (render (sortKeys (toGo t)))"
proof -
  have p: "plainValue t" using assms(3) by (rule parseJSON_plain)
  then have "plainValue (toGo t)" by (rule toGo_plain)
  then have "marshalInterface (Some (Generic (toGo t))) = Inr (render (sortKeys (toGo t)))"
    by (rule marshalInterface_decoded)
  with assms(1)
  have m: "json_Marshal_interface I (Some (Generic (toGo t))) = Inr (render (sortKeys (toGo t)))"
    by (simp add: libraryOnFragment_def)
  from assms(1) unmarshal_built [OF assms(2) p]
  have u: "json_Unmarshal_StructuredDocument I
             (render (JObject [(''id'', JString docID'), (''meta'', JNull),
                (''content'', JObject [(''message'', t)])]))
           = Inr \<lparr>StructuredDocument_ID = docID', Meta = None,
                  Content = Some [(''message'', Generic (toGo t))]\<rparr>"
    by (simp add: libraryOnFragment_def)
  from assms(4-6) u m show ?thesis
    by (simp add: retrieveVC_def callReadDocument_def index_def del: render.simps)
qed

text \<open>
  Claim C2, as amended. \<^verbatim>\<open>buildStructuredDoc\<close> puts the credential bytes of the request,
  as they are, into the \<^verbatim>\<open>message\<close> field of the structured document. What comes back
  is not those bytes but what \<^verbatim>\<open>json.Marshal\<close> writes for the decoded message. For a
  payload of the fragment (objects, arrays, \<^verbatim>\<open>true\<close>, \<^verbatim>\<open>false\<close>, \<^verbatim>\<open>null\<close> and
  strings of printable ASCII characters without the double quote, the backslash,
  \<^verbatim>\<open><\<close>, \<^verbatim>\<open>>\<close> and \<^verbatim>\<open>&\<close>; no numbers and no escape sequences), on which the
  library does what its description says: if the document is built with a plain document
  ID and encrypted, the vault returns the encrypted document, and decryption inverts
  encryption, then \<^verbatim>\<open>retrieveVC\<close> returns the payload with no insignificant white
  space, the keys of every object sorted, and of members with the same key the last one.
  Such a payload is returned as it was stored if it is already of that form. Nothing is
  stated for payloads outside the fragment.
\<close>

theorem store_then_retrieve_reencodes:
  assumes lib: "libraryOnFragment I"
    and doc: "buildStructuredDoc I rnd data = Inr doc"
    and frag: "parseJSON (StoreVCRequest_Credential data) = Inr t"
    and pid: "plain (StructuredDocument_ID doc)"
    and enc: "buildEncryptedDoc I op doc vcID = Inr encryptedDocument"
    and vault: "ReadDocument (edvClient op) h profileName docID = Inr encryptedDocument"
    and crypt: "\<And>p jwe s. jweEncrypter op p = Inr jwe \<Longrightarrow> Serialize I jwe = Inr s \<Longrightarrow>
                  \<exists>jwe'. jose_Deserialize I s = Inr jwe' \<and> jweDecrypter op jwe' = Inr p"
  shows "index (Content doc) ''message'' = Some (RawMessage (StoreVCRequest_Credential data))
       \<and> fst (retrieveVC I op h profileName docID contextErrText)
           = Inr (render (sortKeys (toGo t)))
       \<and> (\<forall>c. canonical c \<and> StoreVCRequest_Credential data = render c \<longrightarrow>
              fst (retrieveVC I op h profileName docID contextErrText)
                = Inr (StoreVCRequest_Credential data))"
proof -
  let ?cred = "StoreVCRequest_Credential data"
  let ?docID = "StructuredDocument_ID doc"
  from doc have docv: "doc = \<lparr>StructuredDocument_ID = ?docID, Meta = None,
                  Content = Some [(''message'', RawMessage ?cred)]\<rparr>"
    by (auto simp: buildStructuredDoc_def Let_def split: sum.splits)
  have "marshalStructuredDocument doc
          = Inr (render (JObject [(''id'', JString ?docID), (''meta'', JNull),
                   (''content'', JObject [(''message'', t)])]))"
    by (subst docv) (rule marshal_built [OF pid frag])
  with lib have m: "json_Marshal_StructuredDocument I doc
          = Inr (render (JObject [(''id'', JString ?docID), (''meta'', JNull),
                   (''content'', JObject [(''message'', t)])]))"
    by (simp add: libraryOnFragment_def)
  from enc m obtain jwe s where
    e: "jweEncrypter op (render (JObject [(''id'', JString ?docID), (''meta'', JNull),
                   (''content'', JObject [(''message'', t)])])) = Inr jwe"
    and ser: "Serialize I jwe = Inr s"
    and j: "JWE encryptedDocument = s"
    by (auto simp: buildEncryptedDoc_def Let_def simp del: render.simps split: sum.splits)
  from crypt [OF e ser] obtain jwe' where
    d: "jose_Deserialize I s = Inr jwe'"
    and dec: "jweDecrypter op jwe' =
      Inr (render (JObject [(''id'', JString ?docID), (''meta'', JNull),
                  (''content'', JObject [(''message'', t)])]))"
    by blast
  from d j have d': "jose_Deserialize I (JWE encryptedDocument) = Inr jwe'" by simp
  have r: "fst (retrieveVC I op h profileName docID contextErrText)
             = Inr (render (sortKeys (toGo t)))"
    by (rule retrieve_built [OF lib pid frag vault d' dec])
  have first: "index (Content doc) ''message'' = Some (RawMessage ?cred)"
    by (subst docv) (simp add: index_def)
  have fixed: "fst (retrieveVC I op h profileName docID contextErrText) = Inr ?cred"
    if c: "canonical c \<and> ?cred = render c" for c
  proof -
    from c have "plainValue c" by (simp add: canonical_plain)
    then have "parseJSON (render c) = Inr c" by (rule parseJSON_render)
    with c frag have "t = c" by simp
    with r c show ?thesis by (simp add: canonical_fixed del: render.simps)
  qed
  from first r fixed show ?thesis by blast
qed

lemma libraryOnFragment_example: "libraryOnFragment testImported"
  by (simp add: libraryOnFragment_def testImported_def)

lemma sorted_example:
  "buildStructuredDoc testImported (Inr ''0123456789abcdef'') sortedVCRequest
     = Inr sortedStructuredDoc"
  "parseJSON (StoreVCRequest_Credential sortedVCRequest) = Inr (JObject sortedVCMembers)"
  "plain (StructuredDocument_ID sortedStructuredDoc)"
  "buildEncryptedDoc testImported testOperation sortedStructuredDoc
     ''http://example.edu/credentials/1872'' = Inr sortedEncryptedDocument"
  "ReadDocument (edvClient testOperation) storedSorted ''profileA'' ''0123456789abcdef''
     = Inr sortedEncryptedDocument"
  "canonical (JObject sortedVCMembers)"
  "StoreVCRequest_Credential sortedVCRequest = render (JObject sortedVCMembers)"
  by code_simp+

text \<open>
  The degree credential with its keys in sorted order is stored in the vault in memory and
  read back: the payload returned is the payload stored.
\<close>

theorem store_then_retrieve_witness:
  "libraryOnFragment testImported
   \<and> buildStructuredDoc testImported (Inr ''0123456789abcdef'') sortedVCRequest
     = Inr sortedStructuredDoc
   \<and> parseJSON (StoreVCRequest_Credential sortedVCRequest) = Inr (JObject sortedVCMembers)
   \<and> plain (StructuredDocument_ID sortedStructuredDoc)
   \<and> buildEncryptedDoc testImported testOperation sortedStructuredDoc
       ''http://example.edu/credentials/1872'' = Inr sortedEncryptedDocument
   \<and> ReadDocument (edvClient testOperation) storedSorted ''profileA'' ''0123456789abcdef''
     = Inr sortedEncryptedDocument
   \<and> canonical (JObject sortedVCMembers)
   \<and> fst (retrieveVC testImported testOperation storedSorted ''profileA'' ''0123456789abcdef''
            ''retrieving VC'')
     = Inr (StoreVCRequest_Credential sortedVCRequest)"
proof -
  have "index (Content sortedStructuredDoc) ''message''
          = Some (RawMessage (StoreVCRequest_Credential sortedVCRequest))
       \<and> fst (retrieveVC testImported testOperation storedSorted ''profileA''
                ''0123456789abcdef'' ''retrieving VC'')
           = Inr (render (sortKeys (toGo (JObject sortedVCMembers))))
       \<and> (\<forall>c. canonical c \<and> StoreVCRequest_Credential sortedVCRequest = render c \<longrightarrow>
              fst (retrieveVC testImported testOperation storedSorted ''profileA''
                     ''0123456789abcdef'' ''retrieving VC'')
                = Inr (StoreVCRequest_Credential sortedVCRequest))"
    by (rule store_then_retrieve_reencodes
          [OF libraryOnFragment_example sorted_example(1-5)])
       (simp add: testOperation_def testImported_def)
  with sorted_example(6,7)
  have "fst (retrieveVC testImported testOperation storedSorted ''profileA'' ''0123456789abcdef''
            ''retrieving VC'')
     = Inr (StoreVCRequest_Credential sortedVCRequest)"
    by blast
  with libraryOnFragment_example sorted_example(1-6) show ?thesis by simp
qed

text \<open>
  The claim as stated fails for the degree credential with its keys in the order of the
  data model (context, id, type, issuer, issuance date, subject), a payload of the fragment:
  it is stored, and what is retrieved has the keys in sorted order, so the bytes differ.
\<close>

theorem store_then_retrieve_counterexample:
  "storeVC testImported testOperation (Inr ''0123456789abcdef'') [] vcRequest degreeCredential
     = ([], storedVC)
   \<and> fst (retrieveCredentialHandler testImported testOperation storedVC
            ''http://example.edu/credentials/1872'' ''profileA'')
     = Done [Write sortedVCText]
   \<and> sortedVCText \<noteq> StoreVCRequest_Credential vcRequest"
  by code_simp

end
